theory Spec2Isabelle
  imports Complex_Main
begin

section \<open>Data model\<close>

text \<open>
  The program is one Python script, \<^verbatim>\<open>main.py\<close>, that reads an edit plan (a JSON
  document), resolves it against catalogs of decoded media and builds one composite
  through calls to a media library. Times and sizes are Python numbers; they are
  modelled as \<^typ>\<open>real\<close>, so rounding of floating point values is not part of the model.

  The media library itself is not part of the repository. A clip is therefore the term
  of library calls that built it, and the attributes the script reads from a clip
  (\<^verbatim>\<open>duration\<close>, \<^verbatim>\<open>size\<close>, \<^verbatim>\<open>pos\<close>, \<^verbatim>\<open>start\<close>, \<^verbatim>\<open>txt\<close>) are functions over that term.
\<close>

datatype error =
    KeyError string
  | IndexError
  | ZeroDivisionError
  | TypeError
  | ValueError
  | AttributeError
  | LibraryError

type_synonym dims = "real \<times> real"
type_synonym rgb = "int \<times> int \<times> int"

text \<open>One component of a position tuple: the string \<^verbatim>\<open>"center"\<close> or a number.\<close>

datatype coord = Keyword string | Num real

text \<open>
  The animation entry of an overlay, a JSON object. A key that is absent is \<open>None\<close>;
  \<^verbatim>\<open>animation["k"]\<close> on an absent key raises \<^verbatim>\<open>KeyError\<close>.
\<close>

record animation =
  a_type :: "string option"
  a_height :: "real option"
  a_duration :: "real option"
  a_direction :: "string option"

text \<open>
  The three closures that \<^verbatim>\<open>apply_animation\<close> hands to \<^verbatim>\<open>with_position\<close>, each
  kept with the values it captures: \<^verbatim>\<open>bounce_pos\<close> (the parsed position, the frame
  size, the animation entry) and the two scroll lambdas (the frame size, the clip
  width, the animation entry, the y coordinate). \<open>call_pos\<close> below evaluates them.
\<close>

datatype pos_function =
    BouncePos "coord \<times> coord" dims animation
  | ScrollLeftToRight real animation real
  | ScrollRightToLeft dims real animation real

text \<open>
  What \<^verbatim>\<open>parse_position\<close> may be given and what \<^verbatim>\<open>clip.pos\<close> may hold: a keyword
  string or a list of ratios (from the plan), a tuple (the result of
  \<^verbatim>\<open>parse_position\<close>), a function of time, or any other value.
\<close>

datatype position =
    PStr string
  | PList "real list"
  | PTuple coord coord
  | PFunction pos_function
  | POther

datatype vfx = FadeIn real | FadeOut real | GaussianBlur real

text \<open>The attributes of a text clip that the script reads back.\<close>

record text_attrs =
  t_txt :: string
  t_font :: "string option"
  t_fontsize :: real
  t_color :: rgb

text \<open>
  The clip terms. \<open>VideoFileClip\<close>, \<open>AudioFileClip\<close> and \<open>ImageClip\<close> are decoded
  handles (name, native duration, native size); a rendered \<open>TextClip\<close> carries its
  extent, which the renderer decides.
\<close>

datatype clip =
    VideoFileClip string real dims
  | AudioFileClip string real
  | ImageClip string dims
  | ColorClip dims rgb "real option"
  | TextClip text_attrs dims
  | Subclipped clip real real
  | Concatenate "clip list"
  | CompositeVideoClip "clip list"
  | WithEffects clip "vfx list"
  | WithDuration clip "real option"
  | WithPosition clip position
  | WithStart clip real
  | WithOpacity clip real
  | Resized clip dims
  | Times clip real
  | WithAudio clip clip

subsection \<open>Clip attributes\<close>

text \<open>
  \<^verbatim>\<open>clip.start\<close>: where the clip is anchored on the timeline of a composite; 0 unless
  \<^verbatim>\<open>with_start\<close> set it.
\<close>

fun start :: "clip \<Rightarrow> real" where
  "start (WithStart c t) = t"
| "start (WithEffects c fx) = start c"
| "start (WithDuration c d) = start c"
| "start (WithPosition c p) = start c"
| "start (WithOpacity c x) = start c"
| "start (Resized c s) = start c"
| "start (Times c n) = start c"
| "start (WithAudio c a) = start c"
| "start c = 0"

definition sum_durations :: "real option list \<Rightarrow> real option" where
  "sum_durations ds = (if None \<in> set ds then None else Some (sum_list (map the ds)))"

definition max_end :: "(real \<times> real option) list \<Rightarrow> real option" where
  "max_end es =
     (if None \<in> set (map snd es) then None
      else Some (fold max (map (\<lambda>(s, d). s + the d) es) 0))"

text \<open>
  \<^verbatim>\<open>clip.duration\<close>: \<open>None\<close> for a clip without one (a still image, a text clip
  before \<^verbatim>\<open>with_duration\<close>). A sub-range \<open>[s, e)\<close> has duration \<open>e - s\<close>, where the
  library counts a negative \<open>s\<close> or \<open>e\<close> from the end of the clip, so that the result
  may be negative; a concatenation has the sum of its parts, a composite the latest
  end of its layers, and \<^verbatim>\<open>clip * n\<close> is the clip repeated \<open>n\<close> times.
\<close>

fun duration :: "clip \<Rightarrow> real option" where
  "duration (VideoFileClip n d s) = Some d"
| "duration (AudioFileClip n d) = Some d"
| "duration (ImageClip n s) = None"
| "duration (ColorClip s c d) = d"
| "duration (TextClip a s) = None"
| "duration (Subclipped c s e) =
     (if s < 0 \<or> e < 0
      then map_option (\<lambda>d. (if e < 0 then d + e else e) - (if s < 0 then d + s else s))
             (duration c)
      else Some (e - s))"
| "duration (Concatenate cs) = sum_durations (map duration cs)"
| "duration (CompositeVideoClip cs) = max_end (map (\<lambda>c. (start c, duration c)) cs)"
| "duration (WithEffects c fx) = duration c"
| "duration (WithDuration c d) = d"
| "duration (WithPosition c p) = duration c"
| "duration (WithStart c t) = duration c"
| "duration (WithOpacity c x) = duration c"
| "duration (Resized c s) = duration c"
| "duration (Times c n) =
     (if n = 0 then duration c else map_option (\<lambda>d. n * d) (duration c))"
| "duration (WithAudio c a) = duration c"

text \<open>\<^verbatim>\<open>clip.size\<close>, with \<^verbatim>\<open>clip.w\<close> and \<^verbatim>\<open>clip.h\<close> its components.\<close>

fun size_of :: "clip \<Rightarrow> dims" where
  "size_of (VideoFileClip n d s) = s"
| "size_of (AudioFileClip n d) = (0, 0)"
| "size_of (ImageClip n s) = s"
| "size_of (ColorClip s c d) = s"
| "size_of (TextClip a s) = s"
| "size_of (Subclipped c s e) = size_of c"
| "size_of (Concatenate cs) =
     (fold max (map (\<lambda>c. fst (size_of c)) cs) 0, fold max (map (\<lambda>c. snd (size_of c)) cs) 0)"
| "size_of (CompositeVideoClip cs) = (case cs of [] \<Rightarrow> (0, 0) | c # _ \<Rightarrow> size_of c)"
| "size_of (WithEffects c fx) = size_of c"
| "size_of (WithDuration c d) = size_of c"
| "size_of (WithPosition c p) = size_of c"
| "size_of (WithStart c t) = size_of c"
| "size_of (WithOpacity c x) = size_of c"
| "size_of (Resized c s) = s"
| "size_of (Times c n) = size_of c"
| "size_of (WithAudio c a) = size_of c"

text \<open>
  \<^verbatim>\<open>clip.pos\<close>: what the last \<^verbatim>\<open>with_position\<close> stored; a clip that was never placed
  sits at \<open>(0, 0)\<close>.
\<close>

fun pos :: "clip \<Rightarrow> position" where
  "pos (WithPosition c p) = p"
| "pos (Subclipped c s e) = pos c"
| "pos (WithEffects c fx) = pos c"
| "pos (WithDuration c d) = pos c"
| "pos (WithStart c t) = pos c"
| "pos (WithOpacity c x) = pos c"
| "pos (Resized c s) = pos c"
| "pos (WithAudio c a) = pos c"
| "pos c = PTuple (Num 0) (Num 0)"

text \<open>
  \<^verbatim>\<open>hasattr(clip, 'txt')\<close> and the attributes \<^verbatim>\<open>txt\<close>, \<^verbatim>\<open>font\<close>, \<^verbatim>\<open>fontsize\<close>,
  \<^verbatim>\<open>color\<close> that the script reads after this test. The script builds its text clips
  with the keywords \<^verbatim>\<open>text\<close> and \<^verbatim>\<open>font_size\<close>; such a clip carries the attributes
  \<^verbatim>\<open>text\<close>, \<^verbatim>\<open>font\<close>, \<^verbatim>\<open>font_size\<close> and \<^verbatim>\<open>color\<close>, and no clip of the library
  has an attribute \<^verbatim>\<open>txt\<close>. The test is false on every clip.
\<close>

fun text_of :: "clip \<Rightarrow> text_attrs option" where
  "text_of c = None"

section \<open>Segment resolution\<close>

text \<open>
  \<^verbatim>\<open>safe_subclip(clip, start_time, end_time)\<close>. The result \<open>Inr None\<close> is Python's
  \<^verbatim>\<open>None\<close> (skip this element); comparing with a duration that is \<^verbatim>\<open>None\<close> raises.
\<close>

definition safe_subclip :: "clip \<Rightarrow> real \<Rightarrow> real \<Rightarrow> error + clip option" where
  "safe_subclip clip start_time end_time =
     (case duration clip of
        None \<Rightarrow> Inl TypeError
      | Some d \<Rightarrow>
          (let end_time = (if end_time > d then d else end_time) in
           if start_time \<ge> d then Inr None
           else if start_time \<ge> end_time then Inr None
           else Inr (Some (Subclipped clip start_time end_time))))"

text \<open>Python's \<^verbatim>\<open>int(x)\<close> on a float: truncation towards zero.\<close>

definition py_int :: "real \<Rightarrow> int" where
  "py_int x = (if x \<ge> 0 then \<lfloor>x\<rfloor> else \<lceil>x\<rceil>)"

text \<open>
  \<^verbatim>\<open>loop_clip(clip, duration)\<close>. \<^verbatim>\<open>[clip] * loops\<close> is the empty list when
  \<^verbatim>\<open>loops\<close> is not positive.
\<close>

definition loop_clip :: "clip \<Rightarrow> real \<Rightarrow> error + clip" where
  "loop_clip clip dur =
     (case duration clip of
        None \<Rightarrow> Inl TypeError
      | Some d \<Rightarrow>
          if d \<ge> dur then Inr (Subclipped clip 0 dur)
          else if d = 0 then Inl ZeroDivisionError
          else
            (let loops = py_int (dur / d) + 1;
                 looped_clips = replicate (nat loops) clip;
                 concatenated = Concatenate looped_clips
             in Inr (Subclipped concatenated 0 dur)))"

section \<open>The edit plan and the collaborators\<close>

text \<open>
  The entries of the plan are JSON objects. Each is a record of its keys, a key that
  the object does not have being \<open>None\<close>: \<^verbatim>\<open>entry["k"]\<close> then raises \<^verbatim>\<open>KeyError\<close>,
  \<^verbatim>\<open>entry.get("k", v)\<close> gives \<open>v\<close> and \<^verbatim>\<open>"k" in entry\<close> is false. The values are taken
  to have the types the script expects of them.
\<close>

record effect =
  e_type :: "string option"
  e_duration :: "real option"
  e_color :: "string option"
  e_radius :: "real option"
  e_width :: "real option"
  e_offset :: "(real \<times> real) option"
  e_opacity :: "real option"

record background =
  b_color :: "string option"
  b_opacity :: "real option"

record edit =
  ed_asset :: "string option"
  ed_start_time :: "real option"
  ed_end_time :: "real option"
  ed_effects :: "effect list option"

record overlay =
  o_type :: "string option"
  o_asset :: "string option"
  o_text :: "string option"
  o_start_time :: "real option"
  o_end_time :: "real option"
  o_position :: "position option"
  o_size :: "(real \<times> real) option"
  o_opacity :: "real option"
  o_effects :: "effect list option"
  o_animation :: "animation option"
  o_font :: "string option"
  o_font_size :: "real option"
  o_color :: "string option"
  o_background :: "background option"

record audio =
  au_asset :: "string option"
  au_start_time :: "real option"
  au_end_time :: "real option"
  au_volume :: "real option"

record config =
  editing :: "edit list"
  overlays :: "overlay list"
  audio_entries :: "audio list"

text \<open>
  What the script takes from outside itself: the four catalogs that loading the assets
  left (a name that failed to load is absent), the font lookup on the file system, the
  text renderer (\<open>None\<close> when constructing the text clip raises; otherwise the extent
  of the rendered text), whether the blur effect exists in the library, and the
  result of the script's \<^verbatim>\<open>color_string_to_rgb\<close> on a colour string (a table of
  sixteen names, then \<^verbatim>\<open>#\<close> and six hexadecimal digits, white otherwise), which no
  property below looks into: \<open>Inl\<close> when \<^verbatim>\<open>int(..., 16)\<close> raises on the digits.
\<close>

record world =
  video_assets :: "string \<rightharpoonup> clip"
  gif_assets :: "string \<rightharpoonup> clip"
  image_assets :: "string \<rightharpoonup> clip"
  audio_assets :: "string \<rightharpoonup> clip"
  find_font_file :: "string \<Rightarrow> string option"
  render_text :: "text_attrs \<Rightarrow> dims option"
  blur_available :: bool
  color_string_to_rgb :: "string \<Rightarrow> error + rgb"

definition get_key :: "string \<Rightarrow> 'a option \<Rightarrow> error + 'a" where
  "get_key k v = (case v of None \<Rightarrow> Inl (KeyError k) | Some x \<Rightarrow> Inr x)"

definition get_default :: "'a option \<Rightarrow> 'a \<Rightarrow> 'a" where
  "get_default v d = (case v of None \<Rightarrow> d | Some x \<Rightarrow> x)"

text \<open>Sequencing of steps that may raise: the first \<open>Inl\<close> ends the computation.\<close>

definition bind :: "error + 'a \<Rightarrow> ('a \<Rightarrow> error + 'b) \<Rightarrow> error + 'b" where
  "bind m f = (case m of Inl e \<Rightarrow> Inl e | Inr x \<Rightarrow> f x)"

text \<open>\<^verbatim>\<open>TextClip(text=..., font=..., font_size=..., color=...)\<close>.\<close>

definition make_text_clip :: "world \<Rightarrow> text_attrs \<Rightarrow> error + clip" where
  "make_text_clip w a =
     (case render_text w a of None \<Rightarrow> Inl LibraryError | Some s \<Rightarrow> Inr (TextClip a s))"

section \<open>Positions\<close>

text \<open>
  \<^verbatim>\<open>parse_position(position, video_size)\<close>. A string that is none of the seven keywords
  leaves the inner chain without returning and reaches the last line, as does a list
  whose length is not 2 and every value that is neither a string nor a list.
\<close>

definition parse_position :: "position \<Rightarrow> dims \<Rightarrow> coord \<times> coord" where
  "parse_position position video_size =
     (case position of
        PStr s \<Rightarrow>
          if s = ''center'' then (Keyword ''center'', Keyword ''center'')
          else if s = ''top-center'' then (Keyword ''center'', Num 0.1)
          else if s = ''bottom-center'' then (Keyword ''center'', Num 0.9)
          else if s = ''top-left'' then (Num 0.1, Num 0.1)
          else if s = ''top-right'' then (Num 0.9, Num 0.1)
          else if s = ''bottom-left'' then (Num 0.1, Num 0.9)
          else if s = ''bottom-right'' then (Num 0.9, Num 0.9)
          else (Keyword ''center'', Keyword ''center'')
      | PList xs \<Rightarrow>
          if length xs = 2
          then (Num (xs ! 0 * fst video_size), Num (xs ! 1 * snd video_size))
          else (Keyword ''center'', Keyword ''center'')
      | _ \<Rightarrow> (Keyword ''center'', Keyword ''center''))"

text \<open>
  The body of the closure \<^verbatim>\<open>bounce_pos(t)\<close> inside \<^verbatim>\<open>apply_animation\<close>, over the
  values it captures. \<open>bounce_offset\<close> is its local \<^verbatim>\<open>offset\<close>.
\<close>

definition bounce_offset :: "real \<Rightarrow> real \<Rightarrow> real \<Rightarrow> int" where
  "bounce_offset bounce_height dur t = py_int (bounce_height * \<bar>sin (t * pi / dur)\<bar>)"

definition bounce_pos :: "coord \<times> coord \<Rightarrow> dims \<Rightarrow> animation \<Rightarrow> real \<Rightarrow> error + coord \<times> coord" where
  "bounce_pos position video_size animation t =
     (let y_pos = (case snd position of Num y \<Rightarrow> y | Keyword k \<Rightarrow> snd video_size * 0.5);
          bounce_height = get_default (a_height animation) 20
      in bind (get_key ''duration'' (a_duration animation)) (\<lambda>dur.
           if dur = 0 then Inl ZeroDivisionError
           else Inr (fst position, Num (y_pos - of_int (bounce_offset bounce_height dur t)))))"

text \<open>What the library gets when it calls a position function at time \<open>t\<close>.\<close>

fun call_pos :: "pos_function \<Rightarrow> real \<Rightarrow> error + coord \<times> coord" where
  "call_pos (BouncePos position video_size animation) t =
     bounce_pos position video_size animation t"
| "call_pos (ScrollLeftToRight clip_w animation original_y) t =
     bind (get_key ''duration'' (a_duration animation)) (\<lambda>dur.
       if dur = 0 then Inl ZeroDivisionError
       else Inr (Num (- clip_w + t * clip_w / dur), Num original_y))"
| "call_pos (ScrollRightToLeft video_size clip_w animation original_y) t =
     bind (get_key ''duration'' (a_duration animation)) (\<lambda>dur.
       if dur = 0 then Inl ZeroDivisionError
       else Inr (Num (fst video_size + clip_w - t * clip_w / dur), Num original_y))"

text \<open>\<^verbatim>\<open>clip.pos[i]\<close> for \<open>i\<close> 0 or 1, as the shadow effect reads it.\<close>

definition pos_item :: "position \<Rightarrow> nat \<Rightarrow> error + coord" where
  "pos_item p i =
     (case p of
        PTuple a b \<Rightarrow> Inr (if i = 0 then a else b)
      | PStr s \<Rightarrow> if i < length s then Inr (Keyword [s ! i]) else Inl IndexError
      | PList xs \<Rightarrow> if i < length xs then Inr (Num (xs ! i)) else Inl IndexError
      | PFunction f \<Rightarrow> Inl TypeError
      | POther \<Rightarrow> Inl TypeError)"

section \<open>Effects\<close>

text \<open>
  One round of the loop of \<^verbatim>\<open>apply_effects\<close>. The glow effect keeps the unblurred
  clip when the blur raises; outline and shadow do nothing to a clip without the
  \<^verbatim>\<open>txt\<close> attribute; an unknown type does nothing.
\<close>

definition outline_clip :: "world \<Rightarrow> clip \<Rightarrow> text_attrs \<Rightarrow> rgb \<Rightarrow> real \<times> real \<Rightarrow> error + clip" where
  "outline_clip w clip a outline_color d =
     bind (make_text_clip w \<lparr>t_txt = t_txt a, t_font = t_font a, t_fontsize = t_fontsize a,
                             t_color = outline_color\<rparr>) (\<lambda>t.
       Inr (WithPosition (WithDuration t (duration clip)) (PTuple (Num (fst d)) (Num (snd d)))))"

fun outline_clips :: "world \<Rightarrow> clip \<Rightarrow> text_attrs \<Rightarrow> rgb \<Rightarrow> (real \<times> real) list \<Rightarrow> error + clip list" where
  "outline_clips w clip a outline_color [] = Inr []"
| "outline_clips w clip a outline_color (d # ds) =
     bind (outline_clip w clip a outline_color d) (\<lambda>outline.
     bind (outline_clips w clip a outline_color ds) (\<lambda>outlines.
       Inr (outline # outlines)))"

definition shadow_coord :: "coord \<Rightarrow> real \<Rightarrow> coord" where
  "shadow_coord c off = (case c of Num x \<Rightarrow> Num (x + off) | Keyword k \<Rightarrow> Keyword k)"

definition apply_effect :: "world \<Rightarrow> clip \<Rightarrow> effect \<Rightarrow> error + clip" where
  "apply_effect w clip effect =
     bind (get_key ''type'' (e_type effect)) (\<lambda>ty.
       if ty = ''fadein'' then
         bind (get_key ''duration'' (e_duration effect)) (\<lambda>d.
           Inr (WithEffects clip [FadeIn d]))
       else if ty = ''fadeout'' then
         bind (get_key ''duration'' (e_duration effect)) (\<lambda>d.
           Inr (WithEffects clip [FadeOut d]))
       else if ty = ''glow'' then
         bind (get_key ''color'' (e_color effect)) (\<lambda>cs.
         bind (color_string_to_rgb w cs) (\<lambda>glow_color.
           let radius = get_default (e_radius effect) 5;
               blurred_clip =
                 (if blur_available w then WithEffects clip [GaussianBlur radius] else clip);
               color_layer = WithOpacity (ColorClip (size_of clip) glow_color (duration clip)) 0.3
           in Inr (CompositeVideoClip [blurred_clip, color_layer, clip])))
       else if ty = ''outline'' then
         (case text_of clip of
            None \<Rightarrow> Inr clip
          | Some a \<Rightarrow>
              bind (get_key ''color'' (e_color effect)) (\<lambda>cs.
              bind (color_string_to_rgb w cs) (\<lambda>outline_color.
                let outline_width = get_default (e_width effect) 2 in
                bind (outline_clips w clip a outline_color
                        [(- outline_width, 0), (outline_width, 0),
                         (0, - outline_width), (0, outline_width)]) (\<lambda>outlines.
                  Inr (CompositeVideoClip (outlines @ [clip]))))))
       else if ty = ''shadow'' then
         (case text_of clip of
            None \<Rightarrow> Inr clip
          | Some a \<Rightarrow>
              bind (color_string_to_rgb w (get_default (e_color effect) ''black'')) (\<lambda>shadow_color.
                let shadow_offset = get_default (e_offset effect) (5, 5);
                    shadow_opacity = get_default (e_opacity effect) 0.5 in
                bind (make_text_clip w \<lparr>t_txt = t_txt a, t_font = t_font a,
                        t_fontsize = t_fontsize a, t_color = shadow_color\<rparr>) (\<lambda>t.
                bind (pos_item (pos clip) 0) (\<lambda>p0.
                bind (pos_item (pos clip) 1) (\<lambda>p1.
                  let shadow = WithDuration t (duration clip);
                      shadow = WithPosition shadow
                        (PTuple (shadow_coord p0 (fst shadow_offset))
                                (shadow_coord p1 (snd shadow_offset)));
                      shadow = WithOpacity shadow shadow_opacity
                  in Inr (CompositeVideoClip [shadow, clip]))))))
       else Inr clip)"

text \<open>\<^verbatim>\<open>apply_effects(clip, effects)\<close>: the effects in the order of the list.\<close>

fun apply_effects :: "world \<Rightarrow> clip \<Rightarrow> effect list \<Rightarrow> error + clip" where
  "apply_effects w clip [] = Inr clip"
| "apply_effects w clip (effect # effects) =
     bind (apply_effect w clip effect) (\<lambda>clip. apply_effects w clip effects)"

section \<open>Animations\<close>

text \<open>
  The loop of \<^verbatim>\<open>create_typewriter_effect\<close>: one clip for each character \<open>char\<close> of
  the text, \<open>i\<close> its index.
\<close>

definition char_clip :: "world \<Rightarrow> clip \<Rightarrow> text_attrs \<Rightarrow> real \<Rightarrow> nat \<Rightarrow> char \<Rightarrow> error + clip" where
  "char_clip w clip a char_duration i char =
     bind (make_text_clip w \<lparr>t_txt = [char], t_font = t_font a, t_fontsize = t_fontsize a,
                             t_color = t_color a\<rparr>) (\<lambda>t.
       let c = WithDuration t (Some char_duration);
           c = WithPosition c (pos clip);
           c = WithStart c (real i * char_duration)
       in Inr c)"

fun char_clips :: "world \<Rightarrow> clip \<Rightarrow> text_attrs \<Rightarrow> real \<Rightarrow> nat \<Rightarrow> string \<Rightarrow> error + clip list" where
  "char_clips w clip a char_duration i [] = Inr []"
| "char_clips w clip a char_duration i (char # characters) =
     bind (char_clip w clip a char_duration i char) (\<lambda>c.
     bind (char_clips w clip a char_duration (Suc i) characters) (\<lambda>cs.
       Inr (c # cs)))"

text \<open>
  \<^verbatim>\<open>create_typewriter_effect(clip, duration)\<close>. The text is a list of characters, so
  the division by its length is reached with a positive length only.
\<close>

definition create_typewriter_effect :: "world \<Rightarrow> clip \<Rightarrow> real \<Rightarrow> error + clip" where
  "create_typewriter_effect w clip dur =
     (case text_of clip of
        None \<Rightarrow> Inr (WithEffects clip [FadeIn dur])
      | Some a \<Rightarrow>
          (let text = t_txt a in
           if text = [] then Inr clip
           else
             (let characters = text;
                  char_duration = dur / real (length characters)
              in bind (char_clips w clip a char_duration 0 characters) (\<lambda>cs.
                   if cs \<noteq> [] then Inr (CompositeVideoClip cs) else Inr clip))))"

text \<open>
  \<^verbatim>\<open>apply_animation(clip, animation, video_size)\<close>. Bounce and scroll parse
  \<^verbatim>\<open>clip.pos\<close> and replace the position by a function of time; the duration of the
  animation is read when that function is called, not here. The typewriter branch
  catches every exception of the decomposition, a missing duration included, and
  falls back to a fade-in, which reads the duration again.
\<close>

definition apply_animation :: "world \<Rightarrow> clip \<Rightarrow> animation \<Rightarrow> dims \<Rightarrow> error + clip" where
  "apply_animation w clip animation video_size =
     bind (get_key ''type'' (a_type animation)) (\<lambda>ty.
       if ty = ''bounce'' then
         (let position = parse_position (pos clip) video_size
          in Inr (WithPosition clip (PFunction (BouncePos position video_size animation))))
       else if ty = ''scroll'' then
         (let position = parse_position (pos clip) video_size;
              original_y = (case snd position of Num y \<Rightarrow> y | Keyword k \<Rightarrow> snd video_size * 0.5)
          in bind (get_key ''direction'' (a_direction animation)) (\<lambda>direction.
               if direction = ''left_to_right'' then
                 Inr (WithPosition clip
                        (PFunction (ScrollLeftToRight (fst (size_of clip)) animation original_y)))
               else if direction = ''right_to_left'' then
                 Inr (WithPosition clip
                        (PFunction (ScrollRightToLeft video_size (fst (size_of clip)) animation
                                      original_y)))
               else Inr clip))
       else if ty = ''typewriter'' then
         (case bind (get_key ''duration'' (a_duration animation))
                 (\<lambda>d. create_typewriter_effect w clip d) of
            Inr c \<Rightarrow> Inr c
          | Inl e \<Rightarrow>
              bind (get_key ''duration'' (a_duration animation)) (\<lambda>d.
                Inr (WithEffects clip [FadeIn d])))
       else Inr clip)"

section \<open>The main track\<close>

text \<open>
  The first loop over \<^verbatim>\<open>config["editing"]\<close>, which only prints an estimate of the
  total duration. It reads \<^verbatim>\<open>edit["asset"]\<close> without a check.
\<close>

fun calc_total_duration :: "world \<Rightarrow> edit list \<Rightarrow> real \<Rightarrow> error + real" where
  "calc_total_duration w [] total_duration = Inr total_duration"
| "calc_total_duration w (edit # edits) total_duration =
     bind (get_key ''asset'' (ed_asset edit)) (\<lambda>asset_name.
       case video_assets w asset_name of
         None \<Rightarrow> calc_total_duration w edits total_duration
       | Some original_clip \<Rightarrow>
           bind (get_key ''end_time'' (ed_end_time edit)) (\<lambda>e.
           bind (get_key ''start_time'' (ed_start_time edit)) (\<lambda>s.
             case duration original_clip of
               None \<Rightarrow> Inl TypeError
             | Some original_duration \<Rightarrow>
                 (let requested_duration = e - s;
                      actual_duration = min requested_duration (original_duration - s)
                  in calc_total_duration w edits
                       (if actual_duration > 0 then total_duration + actual_duration else total_duration)))))"

text \<open>
  One round of the loop \<^verbatim>\<open>for edit in config["editing"]\<close> that builds
  \<^verbatim>\<open>main_clips\<close>: \<open>Inr None\<close> is \<^verbatim>\<open>continue\<close> (or the warning of the last branch),
  \<open>Inr (Some clip)\<close> the clip that is appended.
\<close>

definition process_edit :: "world \<Rightarrow> edit \<Rightarrow> error + clip option" where
  "process_edit w edit =
     (case ed_asset edit of
        None \<Rightarrow> Inr None
      | Some asset_name \<Rightarrow>
          (case video_assets w asset_name of
             None \<Rightarrow> Inr None
           | Some original_clip \<Rightarrow>
               bind (get_key ''start_time'' (ed_start_time edit)) (\<lambda>s.
                 case duration original_clip of
                   None \<Rightarrow> Inl TypeError
                 | Some d \<Rightarrow>
                     (let start_time = min s (d - 0.1) in
                      bind (get_key ''end_time'' (ed_end_time edit)) (\<lambda>e.
                        let end_time = min e d in
                        bind (safe_subclip original_clip start_time end_time) (\<lambda>r.
                          case r of
                            None \<Rightarrow> Inr None
                          | Some clip \<Rightarrow>
                              bind (apply_effects w clip (get_default (ed_effects edit) [])) (\<lambda>clip.
                                case duration clip of
                                  None \<Rightarrow> Inl TypeError
                                | Some _ \<Rightarrow> Inr (Some clip))))))))"

fun process_editing :: "world \<Rightarrow> edit list \<Rightarrow> clip list \<Rightarrow> error + clip list" where
  "process_editing w [] main_clips = Inr main_clips"
| "process_editing w (edit # edits) main_clips =
     bind (process_edit w edit) (\<lambda>r.
       case r of
         None \<Rightarrow> process_editing w edits main_clips
       | Some clip \<Rightarrow> process_editing w edits (main_clips @ [clip]))"

text \<open>\<^verbatim>\<open>final_video\<close> after the editing loop.\<close>

definition placeholder :: clip where
  "placeholder = ColorClip (1920, 1080) (0, 0, 0) (Some 30)"

definition main_track :: "clip list \<Rightarrow> clip" where
  "main_track main_clips = (if main_clips \<noteq> [] then Concatenate main_clips else placeholder)"

section \<open>Overlays\<close>

text \<open>
  The first part of a round of \<^verbatim>\<open>for overlay in config["overlays"]\<close>: the base clip
  by type. \<open>Inr None\<close> is \<^verbatim>\<open>continue\<close>, reached directly or through the test
  \<^verbatim>\<open>if clip is None\<close> that follows the branches. The whole text branch but the
  computation of the duration is inside a \<^verbatim>\<open>try\<close> whose handler continues.
\<close>

definition text_overlay_clip :: "world \<Rightarrow> overlay \<Rightarrow> real \<Rightarrow> error + clip" where
  "text_overlay_clip w overlay dur =
     (let font_path = find_font_file w (get_default (o_font overlay) ''Arial.ttf'') in
      bind (get_key ''color'' (o_color overlay)) (\<lambda>cs.
      bind (color_string_to_rgb w cs) (\<lambda>color_rgb.
      bind (get_key ''text'' (o_text overlay)) (\<lambda>text.
      bind (get_key ''font_size'' (o_font_size overlay)) (\<lambda>font_size.
      bind (make_text_clip w \<lparr>t_txt = text, t_font = font_path, t_fontsize = font_size,
                              t_color = color_rgb\<rparr>) (\<lambda>t.
        let clip = WithDuration t (Some dur) in
        case o_background overlay of
          None \<Rightarrow> Inr clip
        | Some background \<Rightarrow>
            bind (get_key ''color'' (b_color background)) (\<lambda>bs.
            bind (color_string_to_rgb w bs) (\<lambda>bg_color.
            bind (get_key ''opacity'' (b_opacity background)) (\<lambda>bo.
              let bg = WithOpacity (ColorClip (size_of clip) bg_color (duration clip)) bo
              in Inr (CompositeVideoClip [bg, clip]))))))))))"

definition overlay_duration :: "overlay \<Rightarrow> error + real" where
  "overlay_duration overlay =
     bind (get_key ''end_time'' (o_end_time overlay)) (\<lambda>e.
     bind (get_key ''start_time'' (o_start_time overlay)) (\<lambda>s. Inr (e - s)))"

definition overlay_base :: "world \<Rightarrow> overlay \<Rightarrow> error + clip option" where
  "overlay_base w overlay =
     bind (get_key ''type'' (o_type overlay)) (\<lambda>ty.
       if ty = ''video'' then
         (case o_asset overlay of
            None \<Rightarrow> Inr None
          | Some asset_name \<Rightarrow>
              (case video_assets w asset_name of
                 None \<Rightarrow> Inr None
               | Some original_clip \<Rightarrow>
                   bind (get_key ''start_time'' (o_start_time overlay)) (\<lambda>s.
                   bind (get_key ''end_time'' (o_end_time overlay)) (\<lambda>e.
                     safe_subclip original_clip s e))))
       else if ty = ''gif'' then
         (case o_asset overlay of
            None \<Rightarrow> Inr None
          | Some asset_name \<Rightarrow>
              (case gif_assets w asset_name of
                 None \<Rightarrow> Inr None
               | Some original_clip \<Rightarrow>
                   bind (overlay_duration overlay) (\<lambda>dur.
                     case duration original_clip of
                       None \<Rightarrow> Inl TypeError
                     | Some d \<Rightarrow>
                         if dur > d then bind (loop_clip original_clip dur) (\<lambda>c. Inr (Some c))
                         else safe_subclip original_clip 0 dur)))
       else if ty = ''image'' then
         (case o_asset overlay of
            None \<Rightarrow> Inr None
          | Some asset_name \<Rightarrow>
              (case image_assets w asset_name of
                 None \<Rightarrow> Inr None
               | Some image_clip \<Rightarrow>
                   bind (overlay_duration overlay) (\<lambda>dur.
                     Inr (Some (WithDuration image_clip (Some dur))))))
       else if ty = ''text'' then
         bind (overlay_duration overlay) (\<lambda>dur.
           case text_overlay_clip w overlay dur of
             Inl e \<Rightarrow> Inr None
           | Inr clip \<Rightarrow> Inr (Some clip))
       else Inr None)"

text \<open>
  The second part of the round, the same for every type: size, position, opacity,
  effects, animation, start time. The line that reports the overlay formats
  \<^verbatim>\<open>clip.duration\<close>, which raises when there is none.
\<close>

definition place_overlay :: "world \<Rightarrow> clip \<Rightarrow> overlay \<Rightarrow> clip \<Rightarrow> error + clip" where
  "place_overlay w final_video overlay clip =
     (let clip = (case o_size overlay of
                    None \<Rightarrow> clip
                  | Some sz \<Rightarrow>
                      Resized clip (fst sz * fst (size_of final_video),
                                    snd sz * snd (size_of final_video)))
      in bind (get_key ''position'' (o_position overlay)) (\<lambda>p.
           let position = parse_position p (size_of final_video);
               clip = WithPosition clip (PTuple (fst position) (snd position));
               clip = (case o_opacity overlay of None \<Rightarrow> clip | Some x \<Rightarrow> WithOpacity clip x)
           in bind (case o_effects overlay of
                      None \<Rightarrow> Inr clip
                    | Some effects \<Rightarrow> apply_effects w clip effects) (\<lambda>clip.
              bind (case o_animation overlay of
                      None \<Rightarrow> Inr clip
                    | Some animation \<Rightarrow>
                        apply_animation w clip animation (size_of final_video)) (\<lambda>clip.
              bind (get_key ''start_time'' (o_start_time overlay)) (\<lambda>s.
                let clip = WithStart clip s in
                case duration clip of
                  None \<Rightarrow> Inl TypeError
                | Some _ \<Rightarrow> Inr clip)))))"

definition process_overlay :: "world \<Rightarrow> clip \<Rightarrow> overlay \<Rightarrow> error + clip option" where
  "process_overlay w final_video overlay =
     bind (overlay_base w overlay) (\<lambda>r.
       case r of
         None \<Rightarrow> Inr None
       | Some clip \<Rightarrow> bind (place_overlay w final_video overlay clip) (\<lambda>c. Inr (Some c)))"

fun process_overlays :: "world \<Rightarrow> clip \<Rightarrow> overlay list \<Rightarrow> clip list \<Rightarrow> error + clip list" where
  "process_overlays w final_video [] overlay_clips = Inr overlay_clips"
| "process_overlays w final_video (overlay # rest) overlay_clips =
     bind (process_overlay w final_video overlay) (\<lambda>r.
       case r of
         None \<Rightarrow> process_overlays w final_video rest overlay_clips
       | Some clip \<Rightarrow> process_overlays w final_video rest (overlay_clips @ [clip]))"

text \<open>
  \<^verbatim>\<open>final_video\<close> after the overlays: the library draws the clips of a composite in the
  order of its list, each over those before it.
\<close>

definition composite_overlays :: "clip \<Rightarrow> clip list \<Rightarrow> clip" where
  "composite_overlays final_video overlay_clips =
     (if overlay_clips \<noteq> [] then CompositeVideoClip ([final_video] @ overlay_clips)
      else final_video)"

section \<open>Audio\<close>

text \<open>
  One round of \<^verbatim>\<open>for audio in config["audio"]\<close>: the trimmed clip times its volume,
  or \<open>Inr None\<close> for \<^verbatim>\<open>continue\<close>. The product \<^verbatim>\<open>audio_clip * volume\<close> is the
  library's \<^verbatim>\<open>*\<close> on a clip, which repeats the clip and leaves its amplitude as it is.
\<close>

definition process_audio :: "world \<Rightarrow> audio \<Rightarrow> error + clip option" where
  "process_audio w audio =
     (case au_asset audio of
        None \<Rightarrow> Inr None
      | Some asset_name \<Rightarrow>
          (case audio_assets w asset_name of
             None \<Rightarrow> Inr None
           | Some original_clip \<Rightarrow>
               bind (get_key ''start_time'' (au_start_time audio)) (\<lambda>s.
                 case duration original_clip of
                   None \<Rightarrow> Inl TypeError
                 | Some d \<Rightarrow>
                     (let end_time = get_default (au_end_time audio) d in
                      bind (safe_subclip original_clip s end_time) (\<lambda>r.
                        case r of
                          None \<Rightarrow> Inr None
                        | Some audio_clip \<Rightarrow>
                            (let volume = get_default (au_volume audio) 1.0
                             in Inr (Some (Times audio_clip volume))))))))"

text \<open>
  The loop over the audio entries. The first resolved clip becomes \<^verbatim>\<open>final_audio\<close>;
  for the next one the script calls \<^verbatim>\<open>final_audio.overlay(audio_clip)\<close>, a method
  that the audio clips of the library do not have, which raises \<^verbatim>\<open>AttributeError\<close>.
\<close>

fun mix_audio :: "world \<Rightarrow> audio list \<Rightarrow> clip option \<Rightarrow> error + clip option" where
  "mix_audio w [] final_audio = Inr final_audio"
| "mix_audio w (audio # rest) final_audio =
     bind (process_audio w audio) (\<lambda>r.
       case r of
         None \<Rightarrow> mix_audio w rest final_audio
       | Some audio_clip \<Rightarrow>
           (case final_audio of
              None \<Rightarrow> mix_audio w rest (Some audio_clip)
            | Some mixed \<Rightarrow> Inl AttributeError))"

section \<open>The whole run\<close>

text \<open>
  The script from the parsed plan and the loaded catalogs to the composite that is
  handed to the encoder: \<open>finish\<close> is the part after the main track, from the
  overlays on. The last report formats the duration of the composite.
\<close>

definition finish :: "world \<Rightarrow> config \<Rightarrow> clip \<Rightarrow> error + clip" where
  "finish w cfg final_video =
     bind (process_overlays w final_video (overlays cfg) []) (\<lambda>overlay_clips.
       let final_video = composite_overlays final_video overlay_clips in
       bind (mix_audio w (audio_entries cfg) None) (\<lambda>final_audio.
         let final_video = (case final_audio of
                              None \<Rightarrow> final_video
                            | Some a \<Rightarrow> WithAudio final_video a)
         in case duration final_video of
              None \<Rightarrow> Inl TypeError
            | Some _ \<Rightarrow> Inr final_video))"

definition run :: "world \<Rightarrow> config \<Rightarrow> error + clip" where
  "run w cfg =
     bind (calc_total_duration w (editing cfg) 0) (\<lambda>total_duration.
     bind (process_editing w (editing cfg) []) (\<lambda>main_clips.
       finish w cfg (main_track main_clips)))"

section \<open>Predicates used in the statements\<close>

text \<open>
  An editing entry that names an asset and yields no segment: the asset is not in the
  catalog, or it is and the resolution of the clamped range returns None.
\<close>

definition no_segment :: "world \<Rightarrow> edit \<Rightarrow> bool" where
  "no_segment w e =
     (case ed_asset e of
        None \<Rightarrow> False
      | Some asset_name \<Rightarrow>
          (case video_assets w asset_name of
             None \<Rightarrow> True
           | Some original_clip \<Rightarrow>
               (case (duration original_clip, ed_start_time e, ed_end_time e) of
                  (Some d, Some s, Some t) \<Rightarrow>
                    safe_subclip original_clip (min s (d - 0.1)) (min t d) = Inr None
                | _ \<Rightarrow> False)))"

text \<open>
  An overlay of type video, gif or image whose \<^verbatim>\<open>asset\<close> key is missing or names
  nothing in the catalog of its type.
\<close>

definition unresolved_asset :: "world \<Rightarrow> overlay \<Rightarrow> bool" where
  "unresolved_asset w ov =
     (case o_type ov of
        None \<Rightarrow> False
      | Some ty \<Rightarrow>
          (ty = ''video'' \<and> (case o_asset ov of None \<Rightarrow> True
                              | Some n \<Rightarrow> video_assets w n = None)) \<or>
          (ty = ''gif'' \<and> (case o_asset ov of None \<Rightarrow> True
                            | Some n \<Rightarrow> gif_assets w n = None)) \<or>
          (ty = ''image'' \<and> (case o_asset ov of None \<Rightarrow> True
                              | Some n \<Rightarrow> image_assets w n = None)))"

text \<open>The layers that a list of overlays leaves, in the order of the list.\<close>

definition surviving :: "world \<Rightarrow> clip \<Rightarrow> overlay list \<Rightarrow> clip list" where
  "surviving w final_video ovs =
     List.map_filter
       (\<lambda>ov. case process_overlay w final_video ov of Inl e \<Rightarrow> None | Inr r \<Rightarrow> r) ovs"

section \<open>A concrete world and plan entries\<close>

text \<open>
  Catalogs with one asset of each kind, used to evaluate the definitions: a video of
  10 seconds, an animated image of 2 seconds, a still image and two audio files. No
  font file is found, text renders to a box of one font size per character, the blur
  is missing, and the colour conversion knows white and black.
\<close>

definition example_world :: world where
  "example_world =
     \<lparr>video_assets = [''a'' \<mapsto> VideoFileClip ''a'' 10 (1920, 1080)],
      gif_assets = [''g'' \<mapsto> VideoFileClip ''g'' 2 (100, 100)],
      image_assets = [''i'' \<mapsto> ImageClip ''i'' (64, 64)],
      audio_assets = [''m'' \<mapsto> AudioFileClip ''m'' 10, ''n'' \<mapsto> AudioFileClip ''n'' 8],
      find_font_file = (\<lambda>n. None),
      render_text = (\<lambda>a. Some (real (length (t_txt a)) * t_fontsize a, t_fontsize a)),
      blur_available = False,
      color_string_to_rgb =
        (\<lambda>s. if s = ''black'' then Inr (0, 0, 0) else Inr (255, 255, 255))\<rparr>"

definition edit_entry :: "string \<Rightarrow> real \<Rightarrow> real \<Rightarrow> edit" where
  "edit_entry n s e =
     \<lparr>ed_asset = Some n, ed_start_time = Some s, ed_end_time = Some e, ed_effects = None\<rparr>"

definition ab_clip :: clip where
  "ab_clip =
     WithPosition
       (WithDuration
          (TextClip \<lparr>t_txt = ''AB'', t_font = None, t_fontsize = 40, t_color = (255, 255, 255)\<rparr>
             (80, 40))
          (Some 3))
       (PTuple (Keyword ''center'') (Num 972))"

definition animation_entry :: "string \<Rightarrow> real \<Rightarrow> animation" where
  "animation_entry ty d =
     \<lparr>a_type = Some ty, a_height = None, a_duration = Some d, a_direction = None\<rparr>"

definition text_overlay :: "string \<Rightarrow> real \<Rightarrow> real \<Rightarrow> position option \<Rightarrow> overlay" where
  "text_overlay t s e p =
     \<lparr>o_type = Some ''text'', o_asset = None, o_text = Some t, o_start_time = Some s,
      o_end_time = Some e, o_position = p, o_size = None, o_opacity = None,
      o_effects = None, o_animation = None, o_font = None, o_font_size = Some 40,
      o_color = Some ''white'', o_background = None\<rparr>"

definition asset_overlay :: "string \<Rightarrow> string option \<Rightarrow> real \<Rightarrow> real \<Rightarrow> overlay" where
  "asset_overlay ty n s e =
     \<lparr>o_type = Some ty, o_asset = n, o_text = None, o_start_time = Some s,
      o_end_time = Some e, o_position = Some (PStr ''center''), o_size = None,
      o_opacity = None, o_effects = None, o_animation = None, o_font = None,
      o_font_size = None, o_color = None, o_background = None\<rparr>"

text \<open>The layer that the overlay loop builds from \<open>text_overlay t s e (Some (PStr ''center''))\<close>.\<close>

definition text_layer :: "string \<Rightarrow> real \<Rightarrow> real \<Rightarrow> clip" where
  "text_layer t s e =
     WithStart
       (WithPosition
          (WithDuration
             (TextClip \<lparr>t_txt = t, t_font = None, t_fontsize = 40, t_color = (255, 255, 255)\<rparr>
                (real (length t) * 40, 40))
             (Some (e - s)))
          (PTuple (Keyword ''center'') (Keyword ''center'')))
       s"

text \<open>An audio entry with no end time and no volume.\<close>

definition audio_entry :: "string \<Rightarrow> real \<Rightarrow> audio" where
  "audio_entry n s =
     \<lparr>au_asset = Some n, au_start_time = Some s, au_end_time = None, au_volume = None\<rparr>"

text \<open>A text overlay with a typewriter animation, as the plan declares it.\<close>

definition typewriter_overlay :: "string \<Rightarrow> real \<Rightarrow> real \<Rightarrow> real \<Rightarrow> overlay" where
  "typewriter_overlay t s e d =
     (text_overlay t s e (Some (PStr ''center'')))
       \<lparr>o_animation := Some (animation_entry ''typewriter'' d)\<rparr>"

section \<open>Properties of segment resolution\<close>

lemma sum_durations_replicate:
  "sum_durations (replicate n (Some d)) = Some (real n * d)"
  by (induction n) (auto simp: sum_durations_def algebra_simps)

lemma duration_Concatenate_replicate:
  "duration c = Some d \<Longrightarrow> duration (Concatenate (replicate n c)) = Some (real n * d)"
  by (simp add: sum_durations_replicate)

lemma duration_Subclipped_nonneg:
  "0 \<le> s \<Longrightarrow> 0 \<le> e \<Longrightarrow> duration (Subclipped c s e) = Some (e - s)"
  by simp

lemma floor_copies_cover:
  fixes T d :: real
  assumes "0 < d" "0 < T"
  shows "T < real (nat (py_int (T / d) + 1)) * d"
proof -
  have q: "0 \<le> T / d" using assms by simp
  have "T / d < of_int (\<lfloor>T / d\<rfloor> + 1)" by linarith
  moreover have "0 \<le> \<lfloor>T / d\<rfloor> + 1" using q by (simp add: add_nonneg_nonneg)
  ultimately have "T / d < real (nat (\<lfloor>T / d\<rfloor> + 1))" by simp
  then have "T < real (nat (\<lfloor>T / d\<rfloor> + 1)) * d"
    using assms(1) by (simp add: pos_divide_less_eq)
  then show ?thesis using q by (simp add: py_int_def)
qed

text \<open>
  C1. For a clip of duration \<open>d\<close> and a requested range \<open>[s, e)\<close>, \<open>safe_subclip\<close>
  returns None when \<open>s \<ge> d\<close>; otherwise \<open>e\<close> is clamped to \<open>d\<close> when it exceeds it
  (the clamped end never exceeds \<open>d\<close>, and no error is raised), the result is None
  when \<open>s\<close> is not below the clamped end, and it is exactly the sub-range from \<open>s\<close> to
  the clamped end otherwise.
\<close>

theorem safe_subclip_resolution:
  assumes "duration clip = Some d"
  shows "(s \<ge> d \<longrightarrow> safe_subclip clip s e = Inr None) \<and>
         (s < d \<longrightarrow>
            (let e' = (if e > d then d else e) in
               e' \<le> d \<and>
               (s \<ge> e' \<longrightarrow> safe_subclip clip s e = Inr None) \<and>
               (s < e' \<longrightarrow> safe_subclip clip s e = Inr (Some (Subclipped clip s e')))))"
  using assms by (auto simp: safe_subclip_def Let_def)

theorem safe_subclip_resolution_witness:
  "safe_subclip (VideoFileClip ''a'' 10 (1920, 1080)) 8 12
     = Inr (Some (Subclipped (VideoFileClip ''a'' 10 (1920, 1080)) 8 10))
   \<and> safe_subclip (VideoFileClip ''a'' 10 (1920, 1080)) 10 12 = Inr None
   \<and> safe_subclip (VideoFileClip ''a'' 10 (1920, 1080)) 5 3 = Inr None
   \<and> safe_subclip (VideoFileClip ''a'' 10 (1920, 1080)) 2 3
     = Inr (Some (Subclipped (VideoFileClip ''a'' 10 (1920, 1080)) 2 3))"
proof -
  let ?a = "VideoFileClip ''a'' 10 (1920, 1080)"
  have d: "duration ?a = Some 10" by simp
  show ?thesis
    using safe_subclip_resolution [OF d, of 8 12]
      safe_subclip_resolution [OF d, of 10 12]
      safe_subclip_resolution [OF d, of 5 3]
      safe_subclip_resolution [OF d, of 2 3]
    by simp
qed

text \<open>
  C2. For a clip of positive duration \<open>d\<close> and a target \<open>T > 0\<close>, \<open>loop_clip\<close> returns
  a clip of duration exactly \<open>T\<close>: the leading sub-range \<open>[0, T)\<close> of the source when
  \<open>d \<ge> T\<close>, and otherwise the leading sub-range \<open>[0, T)\<close> of \<open>\<lfloor>T / d\<rfloor> + 1\<close>
  concatenated copies of the source, which together are longer than \<open>T\<close>.
\<close>

theorem loop_clip_exact:
  assumes "duration clip = Some d" and "0 < d" and "0 < T"
  shows "\<exists>r. loop_clip clip T = Inr r \<and> duration r = Some T \<and>
           (d \<ge> T \<longrightarrow> r = Subclipped clip 0 T) \<and>
           (d < T \<longrightarrow>
              r = Subclipped (Concatenate (replicate (nat (\<lfloor>T / d\<rfloor> + 1)) clip)) 0 T \<and>
              duration (Concatenate (replicate (nat (\<lfloor>T / d\<rfloor> + 1)) clip))
                = Some (real (nat (\<lfloor>T / d\<rfloor> + 1)) * d) \<and>
              T < real (nat (\<lfloor>T / d\<rfloor> + 1)) * d)"
proof (cases "d \<ge> T")
  case True
  then show ?thesis using assms by (simp add: loop_clip_def)
next
  case False
  have q: "0 \<le> T / d" using assms by simp
  then have p: "py_int (T / d) = \<lfloor>T / d\<rfloor>" by (simp add: py_int_def)
  have cover: "T < real (nat (\<lfloor>T / d\<rfloor> + 1)) * d"
    using floor_copies_cover [OF assms(2) assms(3)] p by simp
  have dur: "duration (Concatenate (replicate (nat (\<lfloor>T / d\<rfloor> + 1)) clip))
               = Some (real (nat (\<lfloor>T / d\<rfloor> + 1)) * d)"
    using duration_Concatenate_replicate [OF assms(1)] by blast
  have "loop_clip clip T
          = Inr (Subclipped (Concatenate (replicate (nat (\<lfloor>T / d\<rfloor> + 1)) clip)) 0 T)"
    using False assms p by (simp add: loop_clip_def Let_def)
  moreover have "duration (Subclipped (Concatenate (replicate (nat (\<lfloor>T / d\<rfloor> + 1)) clip)) 0 T)
                   = Some T"
    using assms(3) duration_Subclipped_nonneg [of 0 T] by simp
  ultimately show ?thesis using False cover dur by blast
qed

theorem loop_clip_exact_witness:
  "loop_clip (VideoFileClip ''g'' 2 (100, 100)) 5
     = Inr (Subclipped (Concatenate (replicate 3 (VideoFileClip ''g'' 2 (100, 100)))) 0 5)
   \<and> duration (Subclipped (Concatenate (replicate 3 (VideoFileClip ''g'' 2 (100, 100)))) 0 5)
     = Some 5
   \<and> duration (Concatenate (replicate 3 (VideoFileClip ''g'' 2 (100, 100)))) = Some 6"
proof -
  let ?g = "VideoFileClip ''g'' 2 (100, 100)"
  have d: "duration ?g = Some 2" by simp
  have f: "\<lfloor>(5::real) / 2\<rfloor> = 2" by linarith
  have n: "nat (\<lfloor>(5::real) / 2\<rfloor> + 1) = 3" using f by simp
  show ?thesis
    using loop_clip_exact [OF d, of 5] n by auto
qed

section \<open>Properties of the main track\<close>

lemma bind_Inr [simp]: "bind (Inr x) f = f x"
  by (simp add: bind_def)

lemma bind_Inl [simp]: "bind (Inl e) f = Inl e"
  by (simp add: bind_def)

lemma get_key_Some [simp]: "get_key k (Some x) = Inr x"
  by (simp add: get_key_def)

lemma get_key_None [simp]: "get_key k None = Inl (KeyError k)"
  by (simp add: get_key_def)

lemma get_default_Some [simp]: "get_default (Some x) d = x"
  by (simp add: get_default_def)

lemma get_default_None [simp]: "get_default None d = d"
  by (simp add: get_default_def)

lemma no_segment_process_edit:
  "no_segment w e \<Longrightarrow> process_edit w e = Inr None"
  by (auto simp: no_segment_def process_edit_def Let_def
           split: option.splits)

lemma no_segment_calc_total_duration:
  "list_all (no_segment w) edits \<Longrightarrow> \<exists>t. calc_total_duration w edits acc = Inr t"
proof (induction edits arbitrary: acc)
  case Nil
  then show ?case by simp
next
  case (Cons e edits)
  then have e: "no_segment w e" and rest: "list_all (no_segment w) edits" by simp_all
  from e show ?case
    using Cons.IH [OF rest]
    by (auto simp: no_segment_def Let_def split: option.splits)
qed

lemma no_segment_process_editing:
  "list_all (no_segment w) edits \<Longrightarrow> process_editing w edits acc = Inr acc"
  by (induction edits arbitrary: acc) (simp_all add: no_segment_process_edit)

text \<open>
  C4. If no editing entry yields a segment (the list is empty, or every entry names an
  asset that is missing from the catalog or has a time range that resolves to None),
  the main track is the placeholder, a 1920 by 1080 black clip of 30 seconds, and the
  run goes on from it: with no overlays and no audio it returns the placeholder.
\<close>

theorem placeholder_main_track:
  assumes "list_all (no_segment w) (editing cfg)"
  shows "process_editing w (editing cfg) [] = Inr [] \<and>
         main_track [] = ColorClip (1920, 1080) (0, 0, 0) (Some 30) \<and>
         size_of (main_track []) = (1920, 1080) \<and>
         duration (main_track []) = Some 30 \<and>
         run w cfg = finish w cfg (ColorClip (1920, 1080) (0, 0, 0) (Some 30)) \<and>
         (overlays cfg = [] \<and> audio_entries cfg = [] \<longrightarrow>
            run w cfg = Inr (ColorClip (1920, 1080) (0, 0, 0) (Some 30)))"
proof -
  obtain t where t: "calc_total_duration w (editing cfg) 0 = Inr t"
    using no_segment_calc_total_duration [OF assms] by blast
  have pe: "process_editing w (editing cfg) [] = Inr []"
    using no_segment_process_editing [OF assms] by simp
  have mt: "main_track [] = ColorClip (1920, 1080) (0, 0, 0) (Some 30)"
    by (simp add: main_track_def placeholder_def)
  have r: "run w cfg = finish w cfg (ColorClip (1920, 1080) (0, 0, 0) (Some 30))"
    by (simp add: run_def t pe mt)
  have f: "overlays cfg = [] \<and> audio_entries cfg = [] \<longrightarrow>
             finish w cfg (ColorClip (1920, 1080) (0, 0, 0) (Some 30))
               = Inr (ColorClip (1920, 1080) (0, 0, 0) (Some 30))"
    by (simp add: finish_def composite_overlays_def)
  show ?thesis using pe mt r f by simp
qed

theorem placeholder_main_track_witness:
  "list_all (no_segment example_world) [edit_entry ''missing'' 0 5, edit_entry ''a'' 5 3] \<and>
   run example_world
     \<lparr>editing = [edit_entry ''missing'' 0 5, edit_entry ''a'' 5 3],
      overlays = [], audio_entries = []\<rparr>
     = Inr (ColorClip (1920, 1080) (0, 0, 0) (Some 30))"
proof -
  let ?cfg = "\<lparr>editing = [edit_entry ''missing'' 0 5, edit_entry ''a'' 5 3],
                overlays = [], audio_entries = []\<rparr>"
  have h: "list_all (no_segment example_world) (editing ?cfg)"
    by (simp add: no_segment_def example_world_def edit_entry_def safe_subclip_def)
  have "overlays ?cfg = [] \<and> audio_entries ?cfg = [] \<longrightarrow>
          run example_world ?cfg = Inr (ColorClip (1920, 1080) (0, 0, 0) (Some 30))"
    using placeholder_main_track [OF h] by blast
  then have "run example_world ?cfg = Inr (ColorClip (1920, 1080) (0, 0, 0) (Some 30))"
    by simp
  moreover have "list_all (no_segment example_world)
                   [edit_entry ''missing'' 0 5, edit_entry ''a'' 5 3]"
    using h by simp
  ultimately show ?thesis by blast
qed

text \<open>
  C5, as stated, fails. On the 10 second video the entry with start 5 and end 3 keeps
  both times through the clamping, the resolution returns None and the entry is
  skipped. The entry with start -2 and end 3 is resolved, but the library counts the
  negative start from the end of the clip, so the segment has duration -5.
\<close>

theorem clamping_counterexample:
  "video_assets example_world ''a'' = Some (VideoFileClip ''a'' 10 (1920, 1080)) \<and>
   safe_subclip (VideoFileClip ''a'' 10 (1920, 1080)) (min 5 (10 - 0.1)) (min 3 10) = Inr None \<and>
   process_edit example_world (edit_entry ''a'' 5 3) = Inr None \<and>
   process_edit example_world (edit_entry ''a'' (- 2) 3)
     = Inr (Some (Subclipped (VideoFileClip ''a'' 10 (1920, 1080)) (- 2) 3)) \<and>
   duration (Subclipped (VideoFileClip ''a'' 10 (1920, 1080)) (- 2) 3) = Some (- 5)"
  by (simp add: example_world_def edit_entry_def process_edit_def safe_subclip_def)

text \<open>
  C5, amended. For an editing entry whose asset is in the catalog with duration \<open>d\<close>,
  the start is clamped to at most \<open>d - 0.1\<close> and the end to at most \<open>d\<close>. When the
  requested start is below the requested end, or the requested end is above
  \<open>d - 0.1\<close>, the resolution of the clamped range succeeds with a sub-range that ends
  within the source, and the entry goes on to its effects; this sub-range has positive
  length when moreover the requested start is not negative and \<open>d\<close> is at least 0.1.
  Otherwise the resolution returns None and the entry is skipped.
\<close>

theorem clamped_edit_resolution:
  assumes "ed_asset edit = Some asset_name"
    and "video_assets w asset_name = Some original_clip"
    and "duration original_clip = Some d"
    and "ed_start_time edit = Some s"
    and "ed_end_time edit = Some e"
  shows "(s < e \<or> d - 0.1 < e \<longrightarrow>
            safe_subclip original_clip (min s (d - 0.1)) (min e d)
              = Inr (Some (Subclipped original_clip (min s (d - 0.1)) (min e d))) \<and>
            min s (d - 0.1) < min e d \<and> min e d \<le> d \<and>
            process_edit w edit
              = bind (apply_effects w (Subclipped original_clip (min s (d - 0.1)) (min e d))
                        (get_default (ed_effects edit) []))
                  (\<lambda>clip. case duration clip of
                             None \<Rightarrow> Inl TypeError
                           | Some x \<Rightarrow> Inr (Some clip)) \<and>
            (0 \<le> s \<and> 0.1 \<le> d \<longrightarrow>
               0 \<le> min s (d - 0.1) \<and>
               duration (Subclipped original_clip (min s (d - 0.1)) (min e d))
                 = Some (min e d - min s (d - 0.1)) \<and>
               0 < min e d - min s (d - 0.1))) \<and>
         (\<not> (s < e \<or> d - 0.1 < e) \<longrightarrow>
            safe_subclip original_clip (min s (d - 0.1)) (min e d) = Inr None \<and>
            process_edit w edit = Inr None)"
proof -
  have sub: "safe_subclip original_clip (min s (d - 0.1)) (min e d)
               = (if min s (d - 0.1) < min e d
                  then Inr (Some (Subclipped original_clip (min s (d - 0.1)) (min e d)))
                  else Inr None)"
    using assms(3) by (auto simp: safe_subclip_def Let_def min_def)
  have iff: "min s (d - 0.1) < min e d \<longleftrightarrow> (s < e \<or> d - 0.1 < e)"
    by (auto simp: min_def)
  have pe: "process_edit w edit
              = bind (safe_subclip original_clip (min s (d - 0.1)) (min e d)) (\<lambda>r.
                  case r of
                    None \<Rightarrow> Inr None
                  | Some clip \<Rightarrow>
                      bind (apply_effects w clip (get_default (ed_effects edit) [])) (\<lambda>clip.
                        case duration clip of
                          None \<Rightarrow> Inl TypeError
                        | Some x \<Rightarrow> Inr (Some clip)))"
    using assms by (simp add: process_edit_def Let_def)
  have len: "0 \<le> min s (d - 0.1) \<and>
             duration (Subclipped original_clip (min s (d - 0.1)) (min e d))
               = Some (min e d - min s (d - 0.1)) \<and>
             0 < min e d - min s (d - 0.1)"
    if lt: "min s (d - 0.1) < min e d" and nn: "0 \<le> s \<and> 0.1 \<le> d"
  proof -
    have a: "0 \<le> min s (d - 0.1)" using nn by (simp add: min_def)
    then have b: "\<not> min e d < 0" using lt by linarith
    have c: "0 \<le> min e d" using b by linarith
    have dur: "duration (Subclipped original_clip (min s (d - 0.1)) (min e d))
                 = Some (min e d - min s (d - 0.1))"
      using a c by (rule duration_Subclipped_nonneg)
    have len: "0 < min e d - min s (d - 0.1)" using lt by linarith
    show ?thesis using a dur len by blast
  qed
  show ?thesis
  proof (cases "s < e \<or> d - 0.1 < e")
    case True
    then have lt: "min s (d - 0.1) < min e d" using iff by blast
    have s1: "safe_subclip original_clip (min s (d - 0.1)) (min e d)
                = Inr (Some (Subclipped original_clip (min s (d - 0.1)) (min e d)))"
      using sub lt by simp
    have p1: "process_edit w edit
              = bind (apply_effects w (Subclipped original_clip (min s (d - 0.1)) (min e d))
                        (get_default (ed_effects edit) []))
                  (\<lambda>clip. case duration clip of
                             None \<Rightarrow> Inl TypeError
                           | Some x \<Rightarrow> Inr (Some clip))"
      using pe s1 by simp
    have le: "min e d \<le> d" by simp
    show ?thesis using True s1 p1 lt le len [OF lt] by blast
  next
    case False
    then have "\<not> min s (d - 0.1) < min e d" using iff by blast
    then have "safe_subclip original_clip (min s (d - 0.1)) (min e d) = Inr None \<and>
               process_edit w edit = Inr None"
      using sub pe by simp
    then show ?thesis using False by blast
  qed
qed

theorem clamped_edit_resolution_witness:
  "process_edit example_world (edit_entry ''a'' 8 12)
     = Inr (Some (Subclipped (VideoFileClip ''a'' 10 (1920, 1080)) 8 10)) \<and>
   duration (Subclipped (VideoFileClip ''a'' 10 (1920, 1080)) 8 10) = Some 2 \<and>
   process_edit example_world (edit_entry ''a'' 12 20)
     = Inr (Some (Subclipped (VideoFileClip ''a'' 10 (1920, 1080)) (99 / 10) 10)) \<and>
   process_edit example_world (edit_entry ''a'' 5 3) = Inr None"
proof -
  let ?a = "VideoFileClip ''a'' 10 (1920, 1080)"
  have v: "video_assets example_world ''a'' = Some ?a" by (simp add: example_world_def)
  have d: "duration ?a = Some 10" by simp
  have a: "\<And>s e. ed_asset (edit_entry ''a'' s e) = Some ''a''" by (simp add: edit_entry_def)
  have s: "\<And>s e. ed_start_time (edit_entry ''a'' s e) = Some s" by (simp add: edit_entry_def)
  have e: "\<And>s e. ed_end_time (edit_entry ''a'' s e) = Some e" by (simp add: edit_entry_def)
  have f: "\<And>s e. ed_effects (edit_entry ''a'' s e) = None" by (simp add: edit_entry_def)
  show ?thesis
    using clamped_edit_resolution [OF a v d s e, of 8 12]
      clamped_edit_resolution [OF a v d s e, of 12 20]
      clamped_edit_resolution [OF a v d s e, of 5 3]
    by (simp add: f)
qed

section \<open>Properties of the animations\<close>

lemma typewriter_fade_in:
  assumes "a_type anim = Some ''typewriter''" and "a_duration anim = Some D"
  shows "apply_animation w clip anim video_size = Inr (WithEffects clip [FadeIn D])"
  using assms by (simp add: apply_animation_def create_typewriter_effect_def)

text \<open>
  C6 on the code. The text overlay AB from 0 to 3 with a typewriter animation of 2
  seconds: the text clip has no attribute \<^verbatim>\<open>txt\<close>, so \<^verbatim>\<open>create_typewriter_effect\<close>
  takes its first branch and the layer is the whole text clip with a fade-in of 2
  seconds, not a composite of two character layers of 1 second each.
\<close>

theorem typewriter_text_overlay_fades_in:
  "text_of (WithPosition
              (WithDuration
                 (TextClip \<lparr>t_txt = ''AB'', t_font = None, t_fontsize = 40,
                             t_color = (255, 255, 255)\<rparr> (80, 40))
                 (Some 3))
              (PTuple (Keyword ''center'') (Keyword ''center''))) = None \<and>
   process_overlay example_world placeholder (typewriter_overlay ''AB'' 0 3 2)
     = Inr (Some
         (WithStart
            (WithEffects
               (WithPosition
                  (WithDuration
                     (TextClip \<lparr>t_txt = ''AB'', t_font = None, t_fontsize = 40,
                                 t_color = (255, 255, 255)\<rparr> (80, 40))
                     (Some 3))
                  (PTuple (Keyword ''center'') (Keyword ''center'')))
               [FadeIn 2])
            0))"
  by (simp add: process_overlay_def overlay_base_def overlay_duration_def
        text_overlay_clip_def make_text_clip_def place_overlay_def parse_position_def
        typewriter_overlay_def text_overlay_def animation_entry_def example_world_def
        apply_animation_def create_typewriter_effect_def Let_def)

lemma py_int_zero [simp]: "py_int 0 = 0"
  by (simp add: py_int_def)

lemma py_int_nonneg: "0 \<le> x \<Longrightarrow> 0 \<le> py_int x"
  by (simp add: py_int_def)

lemma py_int_nonpos: "x \<le> 0 \<Longrightarrow> py_int x = \<lceil>x\<rceil>"
  by (cases "x = 0") (simp_all add: py_int_def)

lemma bounce_offset_start: "bounce_offset h D 0 = 0"
  by (simp add: bounce_offset_def)

lemma bounce_offset_end: "D \<noteq> 0 \<Longrightarrow> bounce_offset h D D = 0"
  by (simp add: bounce_offset_def)

lemma bounce_offset_peak: "D \<noteq> 0 \<Longrightarrow> bounce_offset h D (D / 2) = py_int h"
  by (simp add: bounce_offset_def)

lemma bounce_offset_nonneg: "0 \<le> h \<Longrightarrow> 0 \<le> bounce_offset h D t"
  by (simp add: bounce_offset_def py_int_nonneg)

text \<open>
  C7, as stated, fails: the offset is truncated to an integer. With height 1 and
  duration 6 the offset at time 1 is 0, not \<open>1 * \<bar>sin (\<pi> / 6)\<bar> = 1 / 2\<close>; with height
  3 / 2 the offset at the middle of the duration is 1, not the height; and with a
  negative height the offset is negative.
\<close>

theorem bounce_offset_counterexample:
  "real_of_int (bounce_offset 1 6 1) \<noteq> 1 * \<bar>sin (1 * pi / 6)\<bar> \<and>
   real_of_int (bounce_offset (3 / 2) 6 (6 / 2)) \<noteq> 3 / 2 \<and>
   bounce_offset (- 3) 6 (6 / 2) < 0"
proof -
  have s: "sin (pi / 6) = 1 / 2" by (rule sin_30)
  have a: "bounce_offset 1 6 1 = 0"
    by (simp add: bounce_offset_def s py_int_def)
  have f: "\<lfloor>(3::real) / 2\<rfloor> = 1" by linarith
  have b: "bounce_offset (3 / 2) 6 (6 / 2) = 1"
    by (simp add: bounce_offset_def py_int_def f)
  have c: "bounce_offset (- 3) 6 (6 / 2) = - 3"
    by (simp add: bounce_offset_def py_int_def)
  show ?thesis using a b c s by simp
qed

text \<open>
  C7, amended. A bounce animation with duration \<open>D \<noteq> 0\<close> replaces the position of the
  layer by a function of time. With \<open>(x, y)\<close> the position that \<open>parse_position\<close>
  returns for \<open>clip.pos\<close>, \<open>y\<close> replaced by half the frame height when it is not a
  number, and the height defaulting to 20, the function returns
  \<open>(x, y - offset t)\<close> for every \<open>t\<close>, where \<open>offset t\<close> is
  \<open>height * \<bar>sin (t * \<pi> / D)\<bar>\<close> truncated towards zero to an integer. The offset is 0
  at \<open>t = 0\<close> and at \<open>t = D\<close>, the truncated height at \<open>t = D / 2\<close>, never above the
  truncated height in absolute value, and non-negative when the height is.
\<close>

theorem bounce_position:
  assumes "a_type anim = Some ''bounce''" and "a_duration anim = Some D" and "D \<noteq> 0"
  shows "apply_animation w clip anim video_size
           = Inr (WithPosition clip
                    (PFunction (BouncePos (parse_position (pos clip) video_size) video_size anim))) \<and>
         (\<forall>t. call_pos (BouncePos (parse_position (pos clip) video_size) video_size anim) t
                = Inr (fst (parse_position (pos clip) video_size),
                       Num ((case snd (parse_position (pos clip) video_size) of
                               Num y \<Rightarrow> y | Keyword k \<Rightarrow> snd video_size * 0.5)
                            - of_int (bounce_offset (get_default (a_height anim) 20) D t)))) \<and>
         (\<forall>h t. bounce_offset h D t = py_int (h * \<bar>sin (t * pi / D)\<bar>) \<and>
                 \<bar>bounce_offset h D t\<bar> \<le> \<bar>py_int h\<bar> \<and>
                 (0 \<le> h \<longrightarrow> 0 \<le> bounce_offset h D t)) \<and>
         (\<forall>h. bounce_offset h D 0 = 0 \<and> bounce_offset h D D = 0 \<and>
               bounce_offset h D (D / 2) = py_int h)"
proof -
  have app: "apply_animation w clip anim video_size
           = Inr (WithPosition clip
                    (PFunction (BouncePos (parse_position (pos clip) video_size) video_size anim)))"
    using assms by (simp add: apply_animation_def Let_def)
  have call: "\<forall>t. call_pos (BouncePos (parse_position (pos clip) video_size) video_size anim) t
                = Inr (fst (parse_position (pos clip) video_size),
                       Num ((case snd (parse_position (pos clip) video_size) of
                               Num y \<Rightarrow> y | Keyword k \<Rightarrow> snd video_size * 0.5)
                            - of_int (bounce_offset (get_default (a_height anim) 20) D t)))"
    using assms by (simp add: bounce_pos_def Let_def)
  have bound: "\<bar>bounce_offset h D t\<bar> \<le> \<bar>py_int h\<bar>" for h t
  proof -
    have s: "\<bar>sin (t * pi / D)\<bar> \<le> 1" by simp
    show ?thesis
    proof (cases "0 \<le> h")
      case True
      have "h * \<bar>sin (t * pi / D)\<bar> \<le> h * 1"
        using True s by (intro mult_left_mono) simp_all
      moreover have "0 \<le> h * \<bar>sin (t * pi / D)\<bar>" using True by simp
      ultimately have "\<lfloor>h * \<bar>sin (t * pi / D)\<bar>\<rfloor> \<le> \<lfloor>h\<rfloor> \<and> 0 \<le> \<lfloor>h * \<bar>sin (t * pi / D)\<bar>\<rfloor>"
        by (simp add: floor_mono)
      then show ?thesis using True \<open>0 \<le> h * \<bar>sin (t * pi / D)\<bar>\<close>
        by (simp add: bounce_offset_def py_int_def)
    next
      case False
      then have neg: "h < 0" by simp
      have le: "h * \<bar>sin (t * pi / D)\<bar> \<le> 0"
        using neg by (simp add: mult_le_0_iff)
      have ge: "h * 1 \<le> h * \<bar>sin (t * pi / D)\<bar>"
        using neg s by (intro mult_left_mono_neg) simp_all
      then have c: "\<lceil>h\<rceil> \<le> \<lceil>h * \<bar>sin (t * pi / D)\<bar>\<rceil>" by (simp add: ceiling_mono)
      have c0: "\<lceil>h * \<bar>sin (t * pi / D)\<bar>\<rceil> \<le> 0" using le by (simp add: ceiling_le_zero)
      have p: "py_int (h * \<bar>sin (t * pi / D)\<bar>) = \<lceil>h * \<bar>sin (t * pi / D)\<bar>\<rceil>"
        using le by (rule py_int_nonpos)
      have ph: "py_int h = \<lceil>h\<rceil>" using neg by (simp add: py_int_def)
      have "\<lceil>h\<rceil> \<le> 0" using neg by (simp add: ceiling_le_zero)
      then show ?thesis using c c0 p ph by (simp add: bounce_offset_def)
    qed
  qed
  show ?thesis
    using app call bound assms(3)
    by (simp add: bounce_offset_start bounce_offset_end bounce_offset_peak bounce_offset_nonneg)
      (simp add: bounce_offset_def)
qed

theorem bounce_position_witness:
  "apply_animation example_world ab_clip (animation_entry ''bounce'' 6) (1920, 1080)
     = Inr (WithPosition ab_clip
              (PFunction (BouncePos (Keyword ''center'', Keyword ''center'') (1920, 1080)
                            (animation_entry ''bounce'' 6)))) \<and>
   call_pos (BouncePos (Keyword ''center'', Keyword ''center'') (1920, 1080)
               (animation_entry ''bounce'' 6)) 3
     = Inr (Keyword ''center'', Num 520) \<and>
   call_pos (BouncePos (Keyword ''center'', Keyword ''center'') (1920, 1080)
               (animation_entry ''bounce'' 6)) 0
     = Inr (Keyword ''center'', Num 540) \<and>
   bounce_offset 20 6 6 = 0 \<and> 0 \<le> bounce_offset 20 6 1"
proof -
  let ?anim = "animation_entry ''bounce'' 6"
  have ty: "a_type ?anim = Some ''bounce''" and du: "a_duration ?anim = Some 6"
    and ne: "(6::real) \<noteq> 0" and h: "get_default (a_height ?anim) 20 = 20"
    by (simp_all add: animation_entry_def)
  have pp: "parse_position (pos ab_clip) (1920, 1080) = (Keyword ''center'', Keyword ''center'')"
    by (simp add: ab_clip_def parse_position_def)
  have p20: "py_int 20 = 20" by (simp add: py_int_def)
  note b = bounce_position [OF ty du ne, of example_world ab_clip "(1920, 1080)"]
  have app: "apply_animation example_world ab_clip ?anim (1920, 1080)
     = Inr (WithPosition ab_clip
              (PFunction (BouncePos (Keyword ''center'', Keyword ''center'') (1920, 1080) ?anim)))"
    using b pp by simp
  have b3: "\<forall>h t. bounce_offset h 6 t = py_int (h * \<bar>sin (t * pi / 6)\<bar>) \<and>
                 \<bar>bounce_offset h 6 t\<bar> \<le> \<bar>py_int h\<bar> \<and>
                 (0 \<le> h \<longrightarrow> 0 \<le> bounce_offset h 6 t)"
    and b4: "\<forall>h. bounce_offset h 6 0 = 0 \<and> bounce_offset h 6 6 = 0 \<and>
               bounce_offset h 6 (6 / 2) = py_int h"
    using b by blast+
  have nn: "(0::real) \<le> 20 \<longrightarrow> 0 \<le> bounce_offset 20 6 1"
    using b3 by blast
  have offs: "bounce_offset 20 6 0 = 0 \<and> bounce_offset 20 6 6 = 0 \<and>
              bounce_offset 20 6 (6 / 2) = py_int 20 \<and> 0 \<le> bounce_offset 20 6 1"
    using b4 nn by simp
  then have o3: "bounce_offset 20 6 3 = 20" using p20 by simp
  have call: "\<And>t. call_pos (BouncePos (Keyword ''center'', Keyword ''center'') (1920, 1080) ?anim) t
                = Inr (Keyword ''center'', Num (540 - of_int (bounce_offset 20 6 t)))"
    using b pp h by simp
  show ?thesis using app offs o3 call [of 3] call [of 0] by simp
qed

section \<open>Properties of the overlays\<close>

lemma process_overlays_acc:
  "process_overlays w fv ovs acc
     = bind (process_overlays w fv ovs []) (\<lambda>ls. Inr (acc @ ls))"
proof (induction ovs arbitrary: acc)
  case Nil
  then show ?case by simp
next
  case (Cons ov ovs)
  show ?case
  proof (cases "process_overlay w fv ov")
    case (Inl e)
    then show ?thesis by simp
  next
    case (Inr r)
    show ?thesis
    proof (cases r)
      case None
      then show ?thesis using Inr Cons.IH [of acc] by simp
    next
      case (Some c)
      have "process_overlays w fv (ov # ovs) acc = process_overlays w fv ovs (acc @ [c])"
        using Inr Some by simp
      also have "\<dots> = bind (process_overlays w fv ovs []) (\<lambda>ls. Inr ((acc @ [c]) @ ls))"
        by (rule Cons.IH)
      also have "\<dots> = bind (process_overlays w fv (ov # ovs) []) (\<lambda>ls. Inr (acc @ ls))"
        using Inr Some Cons.IH [of "[c]"]
        by (cases "process_overlays w fv ovs []") simp_all
      finally show ?thesis .
    qed
  qed
qed

lemma process_overlays_skip:
  "process_overlay w fv ov = Inr None \<Longrightarrow>
   process_overlays w fv (xs @ ov # ys) acc = process_overlays w fv (xs @ ys) acc"
proof (induction xs arbitrary: acc)
  case Nil
  then show ?case by simp
next
  case (Cons x xs)
  show ?case
  proof (cases "process_overlay w fv x")
    case (Inl e)
    then show ?thesis by simp
  next
    case (Inr r)
    then show ?thesis using Cons.IH [OF Cons.prems] by (cases r) simp_all
  qed
qed

lemma process_overlays_surviving:
  "process_overlays w fv ovs [] = Inr layers \<Longrightarrow> layers = surviving w fv ovs"
proof (induction ovs arbitrary: layers)
  case Nil
  then show ?case by (simp add: surviving_def map_filter_simps)
next
  case (Cons ov ovs)
  show ?case
  proof (cases "process_overlay w fv ov")
    case (Inl e)
    then show ?thesis using Cons.prems by simp
  next
    case (Inr r)
    show ?thesis
    proof (cases r)
      case None
      then have "process_overlays w fv ovs [] = Inr layers" using Inr Cons.prems by simp
      then have "layers = surviving w fv ovs" by (rule Cons.IH)
      then show ?thesis using Inr None by (simp add: surviving_def map_filter_simps)
    next
      case (Some c)
      then have "process_overlays w fv ovs [c] = Inr layers" using Inr Cons.prems by simp
      then have b: "bind (process_overlays w fv ovs []) (\<lambda>ls. Inr ([c] @ ls)) = Inr layers"
        using process_overlays_acc [of w fv ovs "[c]"] by simp
      then obtain ls where ls: "process_overlays w fv ovs [] = Inr ls" "layers = c # ls"
        by (cases "process_overlays w fv ovs []") auto
      have "ls = surviving w fv ovs" using ls(1) by (rule Cons.IH)
      then show ?thesis using Inr Some ls(2) by (simp add: surviving_def map_filter_simps)
    qed
  qed
qed

lemma surviving_append:
  "surviving w fv (xs @ ys) = surviving w fv xs @ surviving w fv ys"
  by (simp add: surviving_def map_filter_def)

lemma surviving_Cons_Some:
  "process_overlay w fv ov = Inr (Some c) \<Longrightarrow>
   surviving w fv (ov # ovs) = c # surviving w fv ovs"
  by (simp add: surviving_def map_filter_simps)

lemma get_key_Inr_iff [simp]: "get_key k v = Inr x \<longleftrightarrow> v = Some x"
  by (cases v) simp_all

lemma place_overlay_start:
  "place_overlay w fv ov c = Inr layer \<Longrightarrow>
   \<exists>s c'. o_start_time ov = Some s \<and> layer = WithStart c' s"
  by (auto simp: place_overlay_def Let_def bind_def
           split: option.splits sum.splits)

lemma unresolved_asset_skipped:
  assumes "unresolved_asset w ov"
  shows "process_overlay w fv ov = Inr None"
proof -
  from assms obtain ty where ty: "o_type ov = Some ty"
    by (cases "o_type ov") (simp_all add: unresolved_asset_def)
  from assms ty consider
      (video) "ty = ''video''" "case o_asset ov of None \<Rightarrow> True | Some n \<Rightarrow> video_assets w n = None"
    | (gif) "ty = ''gif''" "case o_asset ov of None \<Rightarrow> True | Some n \<Rightarrow> gif_assets w n = None"
    | (image) "ty = ''image''" "case o_asset ov of None \<Rightarrow> True | Some n \<Rightarrow> image_assets w n = None"
    unfolding unresolved_asset_def by auto
  then have "overlay_base w ov = Inr None"
  proof cases
    case video
    then show ?thesis using ty by (cases "o_asset ov") (simp_all add: overlay_base_def)
  next
    case gif
    then show ?thesis using ty by (cases "o_asset ov") (simp_all add: overlay_base_def)
  next
    case image
    then show ?thesis using ty by (cases "o_asset ov") (simp_all add: overlay_base_def)
  qed
  then show ?thesis by (simp add: process_overlay_def)
qed

lemma text_overlay_clip_missing_field:
  assumes "o_text ov = None \<or> o_color ov = None \<or> o_font_size ov = None"
  shows "\<exists>err. text_overlay_clip w ov d = Inl err"
proof (cases "o_color ov")
  case None
  then show ?thesis by (simp add: text_overlay_clip_def)
next
  case (Some cs)
  note col = Some
  show ?thesis
  proof (cases "color_string_to_rgb w cs")
    case (Inl e)
    then show ?thesis using col by (simp add: text_overlay_clip_def)
  next
    case (Inr rgb)
    show ?thesis
    proof (cases "o_text ov")
      case None
      then show ?thesis using col Inr by (simp add: text_overlay_clip_def)
    next
      case (Some t)
      then have "o_font_size ov = None" using assms col by simp
      then show ?thesis using col Inr Some by (simp add: text_overlay_clip_def)
    qed
  qed
qed

lemma text_overlay_missing_field:
  assumes "o_type ov = Some ''text''" and "o_start_time ov = Some s" and "o_end_time ov = Some e"
    and "o_text ov = None \<or> o_color ov = None \<or> o_font_size ov = None"
  shows "process_overlay w fv ov = Inr None"
proof -
  obtain err where "text_overlay_clip w ov (e - s) = Inl err"
    using text_overlay_clip_missing_field [OF assms(4)] by blast
  then show ?thesis
    using assms(1-3) by (simp add: process_overlay_def overlay_base_def overlay_duration_def)
qed

text \<open>
  C3, as stated, fails: a text overlay that has every field but \<^verbatim>\<open>position\<close> is not
  skipped. The run with this overlay before a well-formed one ends in
  \<^verbatim>\<open>KeyError\<close>, although the plan was read and the well-formed overlay alone gives a
  result.
\<close>

theorem overlay_missing_field_counterexample:
  "run example_world
     \<lparr>editing = [],
      overlays = [text_overlay ''Hi'' 0 2 None, text_overlay ''Yo'' 1 3 (Some (PStr ''center''))],
      audio_entries = []\<rparr>
     = Inl (KeyError ''position'') \<and>
   \<not> isl (run example_world
            \<lparr>editing = [], overlays = [text_overlay ''Yo'' 1 3 (Some (PStr ''center''))],
             audio_entries = []\<rparr>)"
  by (simp add: run_def finish_def main_track_def placeholder_def process_overlay_def
        overlay_base_def overlay_duration_def text_overlay_clip_def make_text_clip_def
        place_overlay_def parse_position_def composite_overlays_def text_overlay_def
        example_world_def max_end_def Let_def)

text \<open>
  C3, amended. An overlay of type video, gif or image whose \<^verbatim>\<open>asset\<close> field is missing
  or names nothing in the catalog, and a text overlay with its two times whose
  \<^verbatim>\<open>text\<close>, \<^verbatim>\<open>color\<close> or \<^verbatim>\<open>font_size\<close> field is missing, is skipped alone: the
  loop gives the result it gives without that overlay. An overlay without \<^verbatim>\<open>type\<close>,
  a video overlay whose asset resolves and that has no \<^verbatim>\<open>start_time\<close>, and an overlay
  whose base clip was built and that has no \<^verbatim>\<open>position\<close> raise \<^verbatim>\<open>KeyError\<close>, which
  ends the loop and the run.
\<close>

theorem overlay_skip_or_abort:
  "(unresolved_asset w ov \<or>
    (o_type ov = Some ''text'' \<and> o_start_time ov \<noteq> None \<and> o_end_time ov \<noteq> None \<and>
     (o_text ov = None \<or> o_color ov = None \<or> o_font_size ov = None)) \<longrightarrow>
      process_overlay w fv ov = Inr None \<and>
      process_overlays w fv (xs @ ov # ys) acc = process_overlays w fv (xs @ ys) acc) \<and>
   (o_type ov = None \<longrightarrow>
      process_overlays w fv (ov # ys) acc = Inl (KeyError ''type'')) \<and>
   (o_type ov = Some ''video'' \<and> o_asset ov \<noteq> None \<and>
    video_assets w (the (o_asset ov)) \<noteq> None \<and> o_start_time ov = None \<longrightarrow>
      process_overlays w fv (ov # ys) acc = Inl (KeyError ''start_time'')) \<and>
   (overlay_base w ov \<noteq> Inr None \<and> \<not> isl (overlay_base w ov) \<and> o_position ov = None \<longrightarrow>
      process_overlays w fv (ov # ys) acc = Inl (KeyError ''position''))"
proof (intro conjI impI)
  assume h: "unresolved_asset w ov \<or>
    (o_type ov = Some ''text'' \<and> o_start_time ov \<noteq> None \<and> o_end_time ov \<noteq> None \<and>
     (o_text ov = None \<or> o_color ov = None \<or> o_font_size ov = None))"
  then show skip: "process_overlay w fv ov = Inr None"
  proof
    assume "unresolved_asset w ov"
    then show ?thesis by (rule unresolved_asset_skipped)
  next
    assume t: "o_type ov = Some ''text'' \<and> o_start_time ov \<noteq> None \<and> o_end_time ov \<noteq> None \<and>
     (o_text ov = None \<or> o_color ov = None \<or> o_font_size ov = None)"
    then obtain s e where "o_start_time ov = Some s" "o_end_time ov = Some e" by auto
    then show ?thesis using t text_overlay_missing_field [of ov s e w fv] by blast
  qed
  show "process_overlays w fv (xs @ ov # ys) acc = process_overlays w fv (xs @ ys) acc"
    using skip by (rule process_overlays_skip)
next
  assume "o_type ov = None"
  then show "process_overlays w fv (ov # ys) acc = Inl (KeyError ''type'')"
    by (simp add: process_overlay_def overlay_base_def)
next
  assume "o_type ov = Some ''video'' \<and> o_asset ov \<noteq> None \<and>
    video_assets w (the (o_asset ov)) \<noteq> None \<and> o_start_time ov = None"
  then obtain n src where "o_type ov = Some ''video''" "o_asset ov = Some n"
    "video_assets w n = Some src" "o_start_time ov = None" by auto
  then show "process_overlays w fv (ov # ys) acc = Inl (KeyError ''start_time'')"
    by (simp add: process_overlay_def overlay_base_def)
next
  assume h: "overlay_base w ov \<noteq> Inr None \<and> \<not> isl (overlay_base w ov) \<and> o_position ov = None"
  then obtain c where c: "overlay_base w ov = Inr (Some c)"
    by (cases "overlay_base w ov") auto
  have "place_overlay w fv ov c = Inl (KeyError ''position'')"
    using h by (simp add: place_overlay_def Let_def)
  then show "process_overlays w fv (ov # ys) acc = Inl (KeyError ''position'')"
    using c by (simp add: process_overlay_def)
qed

theorem overlay_skip_or_abort_witness:
  "process_overlays example_world placeholder
     ([] @ asset_overlay ''video'' (Some ''nope'') 0 1
         # [text_overlay ''Yo'' 1 3 (Some (PStr ''center''))]) []
     = process_overlays example_world placeholder
         ([] @ [text_overlay ''Yo'' 1 3 (Some (PStr ''center''))]) [] \<and>
   process_overlay example_world placeholder
     ((text_overlay ''Hi'' 0 2 (Some (PStr ''center''))) \<lparr>o_color := None\<rparr>) = Inr None \<and>
   process_overlays example_world placeholder
     [(asset_overlay ''video'' (Some ''a'') 0 1) \<lparr>o_type := None\<rparr>] []
     = Inl (KeyError ''type'') \<and>
   process_overlays example_world placeholder
     [(asset_overlay ''video'' (Some ''a'') 0 1) \<lparr>o_start_time := None\<rparr>] []
     = Inl (KeyError ''start_time'') \<and>
   process_overlays example_world placeholder [text_overlay ''Hi'' 0 2 None] []
     = Inl (KeyError ''position'')"
proof -
  let ?good = "text_overlay ''Yo'' 1 3 (Some (PStr ''center''))"
  let ?o1 = "asset_overlay ''video'' (Some ''nope'') 0 1"
  let ?o2 = "(asset_overlay ''video'' (Some ''a'') 0 1) \<lparr>o_type := None\<rparr>"
  let ?o3 = "(asset_overlay ''video'' (Some ''a'') 0 1) \<lparr>o_start_time := None\<rparr>"
  let ?o4 = "text_overlay ''Hi'' 0 2 None"
  let ?o5 = "(text_overlay ''Hi'' 0 2 (Some (PStr ''center''))) \<lparr>o_color := None\<rparr>"
  have h1: "unresolved_asset example_world ?o1"
    by (simp add: unresolved_asset_def asset_overlay_def example_world_def)
  have h2: "o_type ?o2 = None" by simp
  have h3: "o_type ?o3 = Some ''video'' \<and> o_asset ?o3 \<noteq> None \<and>
            video_assets example_world (the (o_asset ?o3)) \<noteq> None \<and> o_start_time ?o3 = None"
    by (simp add: asset_overlay_def example_world_def)
  have b4: "overlay_base example_world ?o4
              = Inr (Some (WithDuration
                  (TextClip \<lparr>t_txt = ''Hi'', t_font = None, t_fontsize = 40,
                              t_color = (255, 255, 255)\<rparr> (80, 40)) (Some 2)))"
    by (simp add: overlay_base_def overlay_duration_def text_overlay_clip_def
          make_text_clip_def text_overlay_def example_world_def)
  have h4: "overlay_base example_world ?o4 \<noteq> Inr None \<and>
            \<not> isl (overlay_base example_world ?o4) \<and> o_position ?o4 = None"
    using b4 by (simp add: text_overlay_def)
  have h5: "o_type ?o5 = Some ''text'' \<and> o_start_time ?o5 \<noteq> None \<and> o_end_time ?o5 \<noteq> None \<and>
            (o_text ?o5 = None \<or> o_color ?o5 = None \<or> o_font_size ?o5 = None)"
    by (simp add: text_overlay_def)
  have r1: "process_overlays example_world placeholder ([] @ ?o1 # [?good]) []
              = process_overlays example_world placeholder ([] @ [?good]) []"
    using overlay_skip_or_abort [where w = example_world and ov = ?o1 and fv = placeholder
        and xs = "[]" and ys = "[?good]" and acc = "[]"] h1
    by blast
  have r5: "process_overlay example_world placeholder ?o5 = Inr None"
    using overlay_skip_or_abort [where w = example_world and ov = ?o5 and fv = placeholder
        and xs = "[]" and ys = "[]" and acc = "[]"] h5
    by blast
  have r2: "process_overlays example_world placeholder (?o2 # []) [] = Inl (KeyError ''type'')"
    using overlay_skip_or_abort [where w = example_world and ov = ?o2 and fv = placeholder
        and xs = "[]" and ys = "[]" and acc = "[]"] h2
    by blast
  have r3: "process_overlays example_world placeholder (?o3 # []) []
              = Inl (KeyError ''start_time'')"
    using overlay_skip_or_abort [where w = example_world and ov = ?o3 and fv = placeholder
        and xs = "[]" and ys = "[]" and acc = "[]"] h3
    by blast
  have r4: "process_overlays example_world placeholder (?o4 # []) []
              = Inl (KeyError ''position'')"
    using overlay_skip_or_abort [where w = example_world and ov = ?o4 and fv = placeholder
        and xs = "[]" and ys = "[]" and acc = "[]"] h4
    by blast
  show ?thesis using r1 r2 r3 r4 r5 by blast
qed

text \<open>
  C9. When the overlay loop ends without raising, its layers are the surviving
  overlays in the order of their declaration, and the final composite is the list of
  the main track followed by these layers, which the library draws in this order: the
  main track first, and for two surviving overlays the later declared after, hence
  over, the earlier, whatever their times and positions. The list is built once, so
  the order is the same for every instant of the composite.
\<close>

theorem overlay_draw_order:
  assumes "process_overlays w fv ovs [] = Inr layers"
  shows "layers = surviving w fv ovs \<and>
         (layers \<noteq> [] \<longrightarrow> composite_overlays fv layers = CompositeVideoClip (fv # layers)) \<and>
         (layers = [] \<longrightarrow> composite_overlays fv layers = fv) \<and>
         (\<forall>xs o1 ys o2 zs c1 c2.
            ovs = xs @ o1 # ys @ o2 # zs \<and>
            process_overlay w fv o1 = Inr (Some c1) \<and>
            process_overlay w fv o2 = Inr (Some c2) \<longrightarrow>
            composite_overlays fv layers
              = CompositeVideoClip
                  (fv # surviving w fv xs @ c1 # surviving w fv ys @ c2 # surviving w fv zs))"
proof -
  have l: "layers = surviving w fv ovs"
    using assms by (rule process_overlays_surviving)
  have ne: "layers \<noteq> [] \<longrightarrow> composite_overlays fv layers = CompositeVideoClip (fv # layers)"
    by (simp add: composite_overlays_def)
  have em: "layers = [] \<longrightarrow> composite_overlays fv layers = fv"
    by (simp add: composite_overlays_def)
  have ord: "composite_overlays fv layers
              = CompositeVideoClip
                  (fv # surviving w fv xs @ c1 # surviving w fv ys @ c2 # surviving w fv zs)"
    if h: "ovs = xs @ o1 # ys @ o2 # zs \<and>
            process_overlay w fv o1 = Inr (Some c1) \<and>
            process_overlay w fv o2 = Inr (Some c2)"
    for xs o1 ys o2 zs c1 c2
  proof -
    have "surviving w fv ovs
            = surviving w fv xs @ surviving w fv (o1 # ys @ o2 # zs)"
      using h by (simp add: surviving_append)
    also have "surviving w fv (o1 # ys @ o2 # zs) = c1 # surviving w fv (ys @ o2 # zs)"
      using h by (simp add: surviving_Cons_Some)
    also have "surviving w fv (ys @ o2 # zs) = surviving w fv ys @ surviving w fv (o2 # zs)"
      by (rule surviving_append)
    also have "surviving w fv (o2 # zs) = c2 # surviving w fv zs"
      using h by (simp add: surviving_Cons_Some)
    finally have "layers = surviving w fv xs @ c1 # surviving w fv ys @ c2 # surviving w fv zs"
      using l by simp
    then show ?thesis by (simp add: composite_overlays_def)
  qed
  show ?thesis using l ne em ord by blast
qed

lemma text_overlay_layer:
  "process_overlay example_world placeholder (text_overlay t s e (Some (PStr ''center'')))
     = Inr (Some (text_layer t s e))"
  by (simp add: process_overlay_def overlay_base_def overlay_duration_def
        text_overlay_clip_def make_text_clip_def place_overlay_def parse_position_def
        text_overlay_def example_world_def text_layer_def Let_def)

theorem overlay_draw_order_witness:
  "process_overlays example_world placeholder
     [text_overlay ''Hi'' 0 2 (Some (PStr ''center'')),
      asset_overlay ''video'' (Some ''nope'') 0 1,
      text_overlay ''Yo'' 1 3 (Some (PStr ''center''))] []
     = Inr [text_layer ''Hi'' 0 2, text_layer ''Yo'' 1 3] \<and>
   composite_overlays placeholder [text_layer ''Hi'' 0 2, text_layer ''Yo'' 1 3]
     = CompositeVideoClip [placeholder, text_layer ''Hi'' 0 2, text_layer ''Yo'' 1 3]"
proof -
  let ?hi = "text_overlay ''Hi'' 0 2 (Some (PStr ''center''))"
  let ?bad = "asset_overlay ''video'' (Some ''nope'') 0 1"
  let ?yo = "text_overlay ''Yo'' 1 3 (Some (PStr ''center''))"
  have bad: "process_overlay example_world placeholder ?bad = Inr None"
    by (simp add: process_overlay_def overlay_base_def asset_overlay_def example_world_def)
  have run: "process_overlays example_world placeholder [?hi, ?bad, ?yo] []
               = Inr [text_layer ''Hi'' 0 2, text_layer ''Yo'' 1 3]"
    by (simp add: text_overlay_layer bad)
  have s0: "surviving example_world placeholder [] = []"
    and s1: "surviving example_world placeholder [?bad] = []"
    by (simp_all add: surviving_def map_filter_simps bad)
  have h: "[?hi, ?bad, ?yo] = [] @ ?hi # [?bad] @ ?yo # [] \<and>
           process_overlay example_world placeholder ?hi = Inr (Some (text_layer ''Hi'' 0 2)) \<and>
           process_overlay example_world placeholder ?yo = Inr (Some (text_layer ''Yo'' 1 3))"
    by (simp add: text_overlay_layer)
  have "composite_overlays placeholder [text_layer ''Hi'' 0 2, text_layer ''Yo'' 1 3]
          = CompositeVideoClip
              (placeholder # surviving example_world placeholder []
                 @ text_layer ''Hi'' 0 2 # surviving example_world placeholder [?bad]
                 @ text_layer ''Yo'' 1 3 # surviving example_world placeholder [])"
    using overlay_draw_order [OF run] h by blast
  then show ?thesis using run s0 s1 by simp
qed

lemma process_overlay_Some:
  assumes "process_overlay w fv ov = Inr (Some layer)"
  shows "\<exists>c. overlay_base w ov = Inr (Some c) \<and> place_overlay w fv ov c = Inr layer"
proof (cases "overlay_base w ov")
  case (Inl e)
  then show ?thesis using assms by (simp add: process_overlay_def)
next
  case (Inr r)
  show ?thesis
  proof (cases r)
    case None
    then show ?thesis using assms Inr by (simp add: process_overlay_def)
  next
    case (Some c)
    then show ?thesis using assms Inr
      by (cases "place_overlay w fv ov c") (simp_all add: process_overlay_def)
  qed
qed

lemma safe_subclip_Some:
  assumes "safe_subclip src s e = Inr (Some c)"
  shows "\<exists>d. duration src = Some d \<and> s < d \<and> s < min e d \<and> c = Subclipped src s (min e d)"
proof (cases "duration src")
  case None
  then show ?thesis using assms by (simp add: safe_subclip_def)
next
  case (Some d)
  then show ?thesis using assms
    by (auto simp: safe_subclip_def Let_def min_def split: if_splits)
qed

lemma video_overlay_base:
  assumes "o_type ov = Some ''video''" and "overlay_base w ov = Inr (Some c)"
  shows "\<exists>n src d s e. o_asset ov = Some n \<and> video_assets w n = Some src \<and>
           duration src = Some d \<and> o_start_time ov = Some s \<and> o_end_time ov = Some e \<and>
           s < d \<and> s < min e d \<and> c = Subclipped src s (min e d)"
proof -
  obtain n where n: "o_asset ov = Some n"
    using assms by (cases "o_asset ov") (simp_all add: overlay_base_def)
  obtain src where src: "video_assets w n = Some src"
    using assms n by (cases "video_assets w n") (simp_all add: overlay_base_def)
  obtain s where s: "o_start_time ov = Some s"
    using assms n src by (cases "o_start_time ov") (simp_all add: overlay_base_def)
  obtain e where e: "o_end_time ov = Some e"
    using assms n src s by (cases "o_end_time ov") (simp_all add: overlay_base_def)
  have "safe_subclip src s e = Inr (Some c)"
    using assms n src s e by (simp add: overlay_base_def)
  then show ?thesis using safe_subclip_Some [of src s e c] n src s e by blast
qed

lemma gif_overlay_base:
  assumes "o_type ov = Some ''gif''" and "overlay_base w ov = Inr (Some c)"
  shows "\<exists>n src d s e body. o_asset ov = Some n \<and> gif_assets w n = Some src \<and>
           duration src = Some d \<and> o_start_time ov = Some s \<and> o_end_time ov = Some e \<and>
           (if e - s > d
            then body = Concatenate (replicate (nat (py_int ((e - s) / d) + 1)) src)
            else body = src) \<and>
           c = Subclipped body 0 (e - s)"
proof -
  have ty: "o_type ov = Some ''gif''" "''gif'' \<noteq> ''video''" using assms(1) by simp_all
  obtain n where n: "o_asset ov = Some n"
    using assms by (cases "o_asset ov") (simp_all add: overlay_base_def)
  obtain src where src: "gif_assets w n = Some src"
    using assms n by (cases "gif_assets w n") (simp_all add: overlay_base_def)
  obtain e where e: "o_end_time ov = Some e"
    using assms n src
    by (cases "o_end_time ov") (simp_all add: overlay_base_def overlay_duration_def)
  obtain s where s: "o_start_time ov = Some s"
    using assms n src e
    by (cases "o_start_time ov") (simp_all add: overlay_base_def overlay_duration_def)
  obtain d where d: "duration src = Some d"
    using assms n src e s
    by (cases "duration src") (simp_all add: overlay_base_def overlay_duration_def)
  show ?thesis
  proof (cases "e - s > d")
    case True
    then have "bind (loop_clip src (e - s)) (\<lambda>c. Inr (Some c)) = Inr (Some c)"
      using assms n src e s d by (simp add: overlay_base_def overlay_duration_def)
    then have "loop_clip src (e - s) = Inr c"
      by (cases "loop_clip src (e - s)") simp_all
    then have "c = Subclipped (Concatenate (replicate (nat (py_int ((e - s) / d) + 1)) src)) 0 (e - s)"
      using True d by (auto simp: loop_clip_def Let_def split: if_splits)
    then show ?thesis using True n src e s d by simp
  next
    case False
    then have "safe_subclip src 0 (e - s) = Inr (Some c)"
      using assms n src e s d by (simp add: overlay_base_def overlay_duration_def)
    then have "c = Subclipped src 0 (min (e - s) d)"
      using safe_subclip_Some [of src 0 "e - s" c] d by auto
    then have "c = Subclipped src 0 (e - s)" using False by (simp add: min_def)
    then show ?thesis using False n src e s d by simp
  qed
qed

text \<open>
  C10. A video overlay that survives has its asset trimmed from the source offset
  \<open>start_time\<close> (to the end time, clamped to the duration of the asset), and the layer
  built from that segment is anchored at the same \<open>start_time\<close> on the output
  timeline. A gif overlay that survives is anchored at its \<open>start_time\<close> too, but its
  segment is the leading sub-range, from source offset 0, of the asset or of its
  concatenated copies, of length \<open>end_time - start_time\<close>.
\<close>

theorem overlay_start_time_roles:
  "(o_type ov = Some ''video'' \<and> process_overlay w fv ov = Inr (Some layer) \<longrightarrow>
      (\<exists>n src d s e.
         o_asset ov = Some n \<and> video_assets w n = Some src \<and> duration src = Some d \<and>
         o_start_time ov = Some s \<and> o_end_time ov = Some e \<and> s < d \<and> s < min e d \<and>
         overlay_base w ov = Inr (Some (Subclipped src s (min e d))) \<and>
         place_overlay w fv ov (Subclipped src s (min e d)) = Inr layer \<and>
         start layer = s)) \<and>
   (o_type ov = Some ''gif'' \<and> process_overlay w fv ov = Inr (Some layer) \<longrightarrow>
      (\<exists>n src d s e body.
         o_asset ov = Some n \<and> gif_assets w n = Some src \<and> duration src = Some d \<and>
         o_start_time ov = Some s \<and> o_end_time ov = Some e \<and>
         (if e - s > d
          then body = Concatenate (replicate (nat (py_int ((e - s) / d) + 1)) src)
          else body = src) \<and>
         overlay_base w ov = Inr (Some (Subclipped body 0 (e - s))) \<and>
         place_overlay w fv ov (Subclipped body 0 (e - s)) = Inr layer \<and>
         start layer = s))"
proof (intro conjI impI)
  assume h: "o_type ov = Some ''video'' \<and> process_overlay w fv ov = Inr (Some layer)"
  then obtain c where c: "overlay_base w ov = Inr (Some c)" "place_overlay w fv ov c = Inr layer"
    using process_overlay_Some by blast
  from video_overlay_base [OF _ c(1)] h obtain n src d s e where
    b: "o_asset ov = Some n" "video_assets w n = Some src" "duration src = Some d"
       "o_start_time ov = Some s" "o_end_time ov = Some e" "s < d" "s < min e d"
       "c = Subclipped src s (min e d)"
    by blast
  from place_overlay_start [OF c(2)] b(4) have "start layer = s" by auto
  then show "\<exists>n src d s e.
         o_asset ov = Some n \<and> video_assets w n = Some src \<and> duration src = Some d \<and>
         o_start_time ov = Some s \<and> o_end_time ov = Some e \<and> s < d \<and> s < min e d \<and>
         overlay_base w ov = Inr (Some (Subclipped src s (min e d))) \<and>
         place_overlay w fv ov (Subclipped src s (min e d)) = Inr layer \<and>
         start layer = s"
    using b c by blast
next
  assume h: "o_type ov = Some ''gif'' \<and> process_overlay w fv ov = Inr (Some layer)"
  then obtain c where c: "overlay_base w ov = Inr (Some c)" "place_overlay w fv ov c = Inr layer"
    using process_overlay_Some by blast
  from gif_overlay_base [OF _ c(1)] h obtain n src d s e body where
    b: "o_asset ov = Some n" "gif_assets w n = Some src" "duration src = Some d"
       "o_start_time ov = Some s" "o_end_time ov = Some e"
       "if e - s > d
        then body = Concatenate (replicate (nat (py_int ((e - s) / d) + 1)) src)
        else body = src"
       "c = Subclipped body 0 (e - s)"
    by blast
  from place_overlay_start [OF c(2)] b(4) have "start layer = s" by auto
  then show "\<exists>n src d s e body.
         o_asset ov = Some n \<and> gif_assets w n = Some src \<and> duration src = Some d \<and>
         o_start_time ov = Some s \<and> o_end_time ov = Some e \<and>
         (if e - s > d
          then body = Concatenate (replicate (nat (py_int ((e - s) / d) + 1)) src)
          else body = src) \<and>
         overlay_base w ov = Inr (Some (Subclipped body 0 (e - s))) \<and>
         place_overlay w fv ov (Subclipped body 0 (e - s)) = Inr layer \<and>
         start layer = s"
    using b c by blast
qed

theorem overlay_start_time_roles_witness:
  "process_overlay example_world placeholder (asset_overlay ''video'' (Some ''a'') 4 7)
     = Inr (Some (WithStart
         (WithPosition (Subclipped (VideoFileClip ''a'' 10 (1920, 1080)) 4 7)
            (PTuple (Keyword ''center'') (Keyword ''center''))) 4)) \<and>
   overlay_base example_world (asset_overlay ''video'' (Some ''a'') 4 7)
     = Inr (Some (Subclipped (VideoFileClip ''a'' 10 (1920, 1080)) 4 7)) \<and>
   process_overlay example_world placeholder (asset_overlay ''gif'' (Some ''g'') 3 8)
     = Inr (Some (WithStart
         (WithPosition
            (Subclipped (Concatenate (replicate 3 (VideoFileClip ''g'' 2 (100, 100)))) 0 5)
            (PTuple (Keyword ''center'') (Keyword ''center''))) 3)) \<and>
   overlay_base example_world (asset_overlay ''gif'' (Some ''g'') 3 8)
     = Inr (Some (Subclipped (Concatenate (replicate 3 (VideoFileClip ''g'' 2 (100, 100)))) 0 5))"
proof -
  let ?a = "VideoFileClip ''a'' 10 (1920, 1080)"
  let ?g = "VideoFileClip ''g'' 2 (100, 100)"
  let ?ov = "asset_overlay ''video'' (Some ''a'') 4 7"
  let ?og = "asset_overlay ''gif'' (Some ''g'') 3 8"
  let ?lv = "WithStart (WithPosition (Subclipped ?a 4 7)
               (PTuple (Keyword ''center'') (Keyword ''center''))) 4"
  let ?lg = "WithStart (WithPosition (Subclipped (Concatenate (replicate 3 ?g)) 0 5)
               (PTuple (Keyword ''center'') (Keyword ''center''))) 3"
  have f: "\<lfloor>(5::real) / 2\<rfloor> = 2" by linarith
  have n3: "nat (py_int ((5::real) / 2) + 1) = 3" using f by (simp add: py_int_def)
  have pv: "process_overlay example_world placeholder ?ov = Inr (Some ?lv)"
    by (simp add: process_overlay_def overlay_base_def place_overlay_def safe_subclip_def
          parse_position_def asset_overlay_def example_world_def Let_def)
  have lg: "loop_clip ?g 5 = Inr (Subclipped (Concatenate (replicate 3 ?g)) 0 5)"
    using n3 by (simp add: loop_clip_def Let_def)
  have og: "overlay_base example_world ?og
              = Inr (Some (Subclipped (Concatenate (replicate 3 ?g)) 0 5))"
    by (simp add: overlay_base_def overlay_duration_def lg asset_overlay_def example_world_def
        del: replicate.simps)
  have plg: "place_overlay example_world placeholder ?og
               (Subclipped (Concatenate (replicate 3 ?g)) 0 5) = Inr ?lg"
    by (simp add: place_overlay_def parse_position_def asset_overlay_def Let_def
        del: replicate.simps)
  have pg: "process_overlay example_world placeholder ?og = Inr (Some ?lg)"
    by (simp add: process_overlay_def og plg del: replicate.simps)
  have tv: "o_type ?ov = Some ''video''" and tg: "o_type ?og = Some ''gif''"
    by (simp_all add: asset_overlay_def)
  from overlay_start_time_roles [of ?ov example_world placeholder ?lv] tv pv
  obtain n src d s e where
    v: "o_asset ?ov = Some n" "video_assets example_world n = Some src" "duration src = Some d"
       "o_start_time ?ov = Some s" "o_end_time ?ov = Some e"
       "overlay_base example_world ?ov = Inr (Some (Subclipped src s (min e d)))"
    by blast
  have "n = ''a''" "s = 4" "e = 7" using v(1,4,5) by (simp_all add: asset_overlay_def)
  then have "src = ?a" using v(2) by (simp add: example_world_def)
  then have "d = 10" using v(3) by simp
  have bv: "overlay_base example_world ?ov = Inr (Some (Subclipped ?a 4 7))"
    using v(6) \<open>src = ?a\<close> \<open>s = 4\<close> \<open>e = 7\<close> \<open>d = 10\<close> by simp
  from overlay_start_time_roles [of ?og example_world placeholder ?lg] tg pg
  obtain n' src' d' s' e' body where
    g: "o_asset ?og = Some n'" "gif_assets example_world n' = Some src'" "duration src' = Some d'"
       "o_start_time ?og = Some s'" "o_end_time ?og = Some e'"
       "if e' - s' > d'
        then body = Concatenate (replicate (nat (py_int ((e' - s') / d') + 1)) src')
        else body = src'"
       "overlay_base example_world ?og = Inr (Some (Subclipped body 0 (e' - s')))"
    by blast
  have "n' = ''g''" "s' = 3" "e' = 8" using g(1,4,5) by (simp_all add: asset_overlay_def)
  then have "src' = ?g" using g(2) by (simp add: example_world_def)
  then have "d' = 2" using g(3) by simp
  have "body = Concatenate (replicate 3 ?g)"
    using g(6) \<open>src' = ?g\<close> \<open>s' = 3\<close> \<open>e' = 8\<close> \<open>d' = 2\<close> n3
    by (simp del: replicate.simps)
  then have bg: "overlay_base example_world ?og
                   = Inr (Some (Subclipped (Concatenate (replicate 3 ?g)) 0 5))"
    using g(7) \<open>s' = 3\<close> \<open>e' = 8\<close> by simp
  show ?thesis using pv bv pg bg by blast
qed

section \<open>Properties of the audio mix\<close>

lemma mix_audio_second_track:
  assumes "process_audio w a = Inr (Some ca)" and "process_audio w b = Inr (Some cb)"
  shows "mix_audio w (a # b # rest) None = Inl AttributeError"
  using assms by simp

text \<open>
  C8 on the code. Two audio entries that both resolve, the second with volume 1 / 2:
  the first track initializes the mix, and at the second the call of the missing
  method \<^verbatim>\<open>overlay\<close> raises, in either order of the two entries, so the run ends
  without a composite and nothing is summed. The product with the volume does not
  scale the track either: the 6 second range times 1 / 2 is a clip of 3 seconds.
\<close>

theorem audio_second_track_raises:
  "mix_audio example_world [audio_entry ''m'' 5] None
     = Inr (Some (Times (Subclipped (AudioFileClip ''m'' 10) 5 10) 1)) \<and>
   mix_audio example_world
     [audio_entry ''m'' 5, (audio_entry ''n'' 2) \<lparr>au_volume := Some (1 / 2)\<rparr>] None
     = Inl AttributeError \<and>
   mix_audio example_world
     [(audio_entry ''n'' 2) \<lparr>au_volume := Some (1 / 2)\<rparr>, audio_entry ''m'' 5] None
     = Inl AttributeError \<and>
   run example_world
     \<lparr>editing = [], overlays = [],
      audio_entries = [audio_entry ''m'' 5, (audio_entry ''n'' 2) \<lparr>au_volume := Some (1 / 2)\<rparr>]\<rparr>
     = Inl AttributeError \<and>
   process_audio example_world ((audio_entry ''n'' 2) \<lparr>au_volume := Some (1 / 2)\<rparr>)
     = Inr (Some (Times (Subclipped (AudioFileClip ''n'' 8) 2 8) (1 / 2))) \<and>
   duration (Subclipped (AudioFileClip ''n'' 8) 2 8) = Some 6 \<and>
   duration (Times (Subclipped (AudioFileClip ''n'' 8) 2 8) (1 / 2)) = Some 3"
  by (simp add: run_def finish_def main_track_def placeholder_def composite_overlays_def
        process_audio_def safe_subclip_def audio_entry_def example_world_def)


end
